theory Spec2Isabelle
  imports
    Complex_Main
    "HOL-Library.Product_Lexorder"
    "HOL-Library.List_Lexorder"
    "HOL-Library.Char_ord"
    "HOL-Library.AList"
begin

section \<open>Itinerary allocation and budget fitting of TravelAIAgent\<close>

text \<open>
  A shallow embedding of \<^verbatim>\<open>agents/itinerary_planner_agent.py\<close> and
  \<^verbatim>\<open>agents/budget_optimizer_agent.py\<close>, with the records of \<^verbatim>\<open>models/\<close>.

  Conventions of the embedding:
  \<^item> a Python \<^verbatim>\<open>float\<close> is an exact \<^typ>\<open>real\<close>: sums, products and quotients do
    not round, and \<^verbatim>\<open>round(x, 2)\<close> is rounding half to even at the second decimal;
  \<^item> a Python \<^verbatim>\<open>int\<close> is an \<^typ>\<open>int\<close>; \<^verbatim>\<open>//\<close> and \<^verbatim>\<open>%\<close> are \<open>div\<close> and \<open>mod\<close>,
    which floor as Python's do, and a zero divisor is the error value;
  \<^item> a \<^verbatim>\<open>str\<close> is the \<^typ>\<open>string\<close> of the bytes of its UTF-8 encoding; comparing these
    byte by byte is comparing the texts code point by code point, as Python does;
  \<^item> a \<^verbatim>\<open>dict\<close> that the code iterates over is an association list in insertion
    order (\<^const>\<open>AList.update\<close> keeps the position of a key that is already there), a
    \<^verbatim>\<open>dict\<close> that is only looked up is a map;
  \<^item> a \<^verbatim>\<open>date\<close> is its ordinal (\<^verbatim>\<open>date.toordinal()\<close>), from 1 for 0001-01-01 to 3652059 for
    9999-12-31; adding a day is adding 1, and raises \<^verbatim>\<open>OverflowError\<close> past the last date;
  \<^item> the in-place updates of \<^verbatim>\<open>Activity.est_cost\<close> are explicit: a function that
    mutates activities returns the new list. Every activity of a day is a separate object
    (each is built by its own constructor call), so no two list positions alias;
  \<^item> the agents' field \<^verbatim>\<open>_airport_to_city\<close> is passed as the map \<open>a2c\<close>, the network call
    \<^verbatim>\<open>AttractionsClient.top_attractions\<close> as the function \<open>top_attractions\<close>, and the library's
    \<^verbatim>\<open>datetime.strptime\<close> as the function \<open>strptime\<close>.
\<close>

subsection \<open>Errors\<close>

datatype py_error = ValueError | ZeroDivisionError | KeyError | OverflowError

subsection \<open>The records of models/\<close>

record FlightOption =
  origin :: string
  destination :: string
  depart_date :: string
  airline :: string
  price :: real
  departure_time :: string
  arrival_time :: string
  booking_link :: string

record HotelOption =
  name :: string
  location :: string
  check_in :: string
  check_out :: string
  price :: real
  rating :: real
  reviews :: int
  link :: string

record Activity =
  name :: string
  description :: string
  est_cost :: real
  link :: "string option"

record ItineraryDay =
  date :: int
  city :: string
  activities :: "Activity list"
  transport :: "string option"

record Itinerary =
  origin :: string
  destinations :: "string list"
  days :: "ItineraryDay list"

record TravelPreferences =
  origin_city :: string
  destinations :: "string list"
  num_days :: int
  num_locations :: int
  total_budget :: real
  start_date :: "int option"
  end_date :: "int option"

record BudgetBreakdown =
  flights :: real
  hotels :: real
  activities :: real

definition total :: "BudgetBreakdown \<Rightarrow> real" where
  "total b = BudgetBreakdown.flights b + BudgetBreakdown.hotels b + BudgetBreakdown.activities b"

text \<open>A point-of-interest record is a \<^verbatim>\<open>Dict[str, str]\<close> read with \<^verbatim>\<open>.get\<close>.\<close>

type_synonym attraction = "string \<rightharpoonup> string"

record TravelGuideInfo =
  tips :: "string list"
  transit_fare :: "real option"
  attractions :: "attraction list"

subsection \<open>utils/airport\_codes.py and the label of a city\<close>

definition CITY_TO_AIRPORT :: "(string \<times> string) list" where
  "CITY_TO_AIRPORT =
    [(''Baku'', ''GYD''), (''Istanbul'', ''IST''), (''Ankara'', ''ESB''), (''Izmir'', ''ADB''),
     (''Tbilisi'', ''TBS''), (''Dubai'', ''DXB''), (''Abu Dhabi'', ''AUH''),
     (''Amsterdam'', ''AMS''), (''Athens'', ''ATH''), (''Barcelona'', ''BCN''),
     (''Berlin'', ''BER''), (''Brussels'', ''BRU''), (''Budapest'', ''BUD''),
     (''Copenhagen'', ''CPH''), (''Dublin'', ''DUB''), (''Frankfurt'', ''FRA''),
     (''Helsinki'', ''HEL''), (''Lisbon'', ''LIS''), (''London'', ''LHR''),
     (''Madrid'', ''MAD''), (''Munich'', ''MUC''), (''Oslo'', ''OSL''), (''Paris'', ''CDG''),
     (''Prague'', ''PRG''), (''Rome'', ''FCO''), (''Stockholm'', ''ARN''),
     (''Vienna'', ''VIE''), (''Warsaw'', ''WAW''), (''Zurich'', ''ZRH''),
     (''Manchester'', ''MAN''), (''Doha'', ''DOH''), (''Jeddah'', ''JED''),
     (''Kuwait City'', ''KWI''), (''Muscat'', ''MCT''), (''Riyadh'', ''RUH''),
     (''Bangkok'', ''BKK''), (''Hong Kong'', ''HKG''), (''Jakarta'', ''CGK''),
     (''Kuala Lumpur'', ''KUL''), (''Manila'', ''MNL''), (''Mumbai'', ''BOM''),
     (''New Delhi'', ''DEL''), (''Seoul'', ''ICN''), (''Shanghai'', ''PVG''),
     (''Singapore'', ''SIN''), (''Taipei'', ''TPE''), (''Tokyo'', ''HND''),
     (''Atlanta'', ''ATL''), (''Boston'', ''BOS''), (''Chicago'', ''ORD''),
     (''Dallas'', ''DFW''), (''Denver'', ''DEN''), (''Houston'', ''IAH''),
     (''Los Angeles'', ''LAX''), (''New York'', ''JFK''), (''Miami'', ''MIA''),
     (''Montreal'', ''YUL''), (''San Francisco'', ''SFO''), (''Seattle'', ''SEA''),
     (''Toronto'', ''YYZ''), (''Vancouver'', ''YVR''), (''Washington D.C.'', ''IAD''),
     (''Buenos Aires'', ''EZE''), (''Mexico City'', ''MEX''), (''Rio de Janeiro'', ''GIG''),
     (''Sao Paulo'', ''GRU''), (''Cairo'', ''CAI''), (''Cape Town'', ''CPT''),
     (''Johannesburg'', ''JNB''), (''Lagos'', ''LOS''), (''Nairobi'', ''NBO''),
     (''Auckland'', ''AKL''), (''Melbourne'', ''MEL''), (''Sydney'', ''SYD'')]"

text \<open>\<^verbatim>\<open>{v: k for k, v in CITY_TO_AIRPORT.items()}\<close>: a later entry overwrites an earlier one.\<close>

definition airport_to_city :: "string \<rightharpoonup> string" where
  "airport_to_city = fold (\<lambda>(k, v) m. m(v \<mapsto> k)) CITY_TO_AIRPORT Map.empty"

definition label_city :: "(string \<rightharpoonup> string) \<Rightarrow> string \<Rightarrow> string" where
  "label_city a2c v = (case a2c v of Some c \<Rightarrow> c | None \<Rightarrow> v)"

subsection \<open>Rounding to two decimals\<close>

definition round_half_even :: "real \<Rightarrow> int" where
  "round_half_even x =
     (let f = \<lfloor>x\<rfloor>; d = x - of_int f
      in if d < 1 / 2 then f else if 1 / 2 < d then f + 1 else if even f then f else f + 1)"

definition py_round2 :: "real \<Rightarrow> real" where
  "py_round2 x = of_int (round_half_even (x * 100)) / 100"

subsection \<open>ItineraryPlannerAgent: the route and the days of each city\<close>

text \<open>The body of both loops of \<^verbatim>\<open>_build_city_route\<close>: skip the origin, append a new city.\<close>

definition collect_city :: "string \<Rightarrow> string \<Rightarrow> string list \<Rightarrow> string list" where
  "collect_city origin_label c route =
     (if c = origin_label then route else if c \<in> set route then route else route @ [c])"

definition build_city_route ::
  "(string \<rightharpoonup> string) \<Rightarrow> TravelPreferences \<Rightarrow> FlightOption list \<Rightarrow> string list" where
  "build_city_route a2c prefs fls =
     (let origin_label = label_city a2c (origin_city prefs);
          route1 = fold (\<lambda>f. collect_city origin_label (label_city a2c (destination f)))
                     (sort_key depart_date fls) [];
          route2 = fold (\<lambda>dest. collect_city origin_label (label_city a2c dest))
                     (TravelPreferences.destinations prefs) route1;
          filtered = filter (\<lambda>c. c \<noteq> origin_label) route2
      in if filtered \<noteq> [] then filtered
         else map (label_city a2c)
                (filter (\<lambda>d. label_city a2c d \<noteq> origin_label)
                   (TravelPreferences.destinations prefs)))"

text \<open>
  \<^verbatim>\<open>_allocate_days\<close>: \<^verbatim>\<open>total_days // len(cities)\<close> raises when the list is empty; the
  dictionary is filled in route order, a repeated city overwriting its earlier count.
\<close>

definition allocate_days :: "int \<Rightarrow> string list \<Rightarrow> py_error + (string \<times> int) list" where
  "allocate_days total_days cities =
     (let total_days = max 1 total_days
      in if length cities = 0 then Inl ZeroDivisionError
         else
           let base = total_days div int (length cities);
               remainder = total_days mod int (length cities)
           in Inr (fold (\<lambda>(i, c). AList.update c (base + (if int i < remainder then 1 else 0)))
                     (enumerate 0 cities) []))"

subsection \<open>ItineraryPlannerAgent: the daily envelope\<close>

definition cheapest_hotel_price :: "(string \<rightharpoonup> string) \<Rightarrow> string \<Rightarrow> HotelOption list \<Rightarrow> real" where
  "cheapest_hotel_price a2c c hs =
     (let city_label = label_city a2c c;
          prices = map HotelOption.price
                     (filter (\<lambda>h. label_city a2c (location h) = city_label) hs)
      in if prices \<noteq> [] then min_list prices else 0)"

text \<open>Python's \<^verbatim>\<open>min(xs, key=...)\<close> returns the first minimal element, as \<^const>\<open>arg_min_list\<close>.\<close>

definition choose_hotel_name :: "(string \<rightharpoonup> string) \<Rightarrow> string \<Rightarrow> HotelOption list \<Rightarrow> string" where
  "choose_hotel_name a2c c hs =
     (let city_label = label_city a2c c;
          matches = filter (\<lambda>h. label_city a2c (location h) = city_label) hs
      in if matches = [] then [] else HotelOption.name (arg_min_list HotelOption.price matches))"

text \<open>\<^verbatim>\<open>sum(days_per_city.values()) or 1\<close>: a zero sum is replaced by 1 before dividing.\<close>

definition estimate_activity_budget ::
  "(string \<rightharpoonup> string) \<Rightarrow> TravelPreferences \<Rightarrow> FlightOption list \<Rightarrow> HotelOption list \<Rightarrow>
   (string \<times> int) list \<Rightarrow> real" where
  "estimate_activity_budget a2c prefs fls hs days_per_city =
     (let cheapest_flight = (if fls = [] then 0 else min_list (map FlightOption.price fls));
          hotel_floor = fold (\<lambda>(c, nights) acc.
                                acc + cheapest_hotel_price a2c c hs * of_int (max 1 nights))
                          days_per_city 0;
          remaining = total_budget prefs - cheapest_flight - hotel_floor
      in if remaining \<le> 0 then 0
         else
           let s = sum_list (map snd days_per_city);
               total_days = (if s = 0 then 1 else s)
           in remaining / of_int total_days)"

subsection \<open>ItineraryPlannerAgent: the activities of a day\<close>

definition find_leg ::
  "(string \<rightharpoonup> string) \<Rightarrow> string \<Rightarrow> string \<Rightarrow> FlightOption list \<Rightarrow> FlightOption option" where
  "find_leg a2c orig dest fls =
     find (\<lambda>f. label_city a2c (destination f) = label_city a2c dest \<and>
                label_city a2c (FlightOption.origin f) = label_city a2c orig) fls"

definition local_transport_cost :: "real \<Rightarrow> TravelGuideInfo option \<Rightarrow> real" where
  "local_transport_cost budget_per_day guide =
     (case guide of
        None \<Rightarrow> 0
      | Some g \<Rightarrow>
          (case transit_fare g of
             None \<Rightarrow> 0
           | Some fare \<Rightarrow> if budget_per_day \<le> 0 then 0 else min (py_round2 fare) budget_per_day))"

definition ground_transfer_cost :: "real \<Rightarrow> real" where
  "ground_transfer_cost budget_per_day = 0"

definition intercity_transport_cost :: "real \<Rightarrow> real" where
  "intercity_transport_cost budget_per_day = 0"

text \<open>The slot table of \<^verbatim>\<open>_activities_for_city\<close>.\<close>

definition slots :: "(string \<times> real) list" where
  "slots = [(''Morning'', 32 / 100), (''Afternoon'', 28 / 100), (''Evening'', 22 / 100),
            (''Late'', 18 / 100)]"

text \<open>What an f-string prints for the result of \<^verbatim>\<open>item.get("name")\<close>.\<close>

definition py_str :: "string option \<Rightarrow> string" where
  "py_str v = (case v of None \<Rightarrow> ''None'' | Some s \<Rightarrow> s)"

text \<open>\<^verbatim>\<open>item.get("link") or None\<close> and \<^verbatim>\<open>item.get("description") or ""\<close>.\<close>

definition or_None :: "string option \<Rightarrow> string option" where
  "or_None v = (case v of None \<Rightarrow> None | Some s \<Rightarrow> if s = [] then None else Some s)"

definition or_empty :: "string option \<Rightarrow> string" where
  "or_empty v = (case v of None \<Rightarrow> [] | Some s \<Rightarrow> s)"

text \<open>
  The attraction records of a day: the guide's list cut to the pool size when the guide has
  one, the attractions client's answer otherwise.
\<close>

definition attraction_pool ::
  "(string \<rightharpoonup> string) \<Rightarrow> (string \<Rightarrow> int \<Rightarrow> attraction list) \<Rightarrow> string \<Rightarrow> int \<Rightarrow>
   TravelGuideInfo option \<Rightarrow> attraction list" where
  "attraction_pool a2c top_attractions c days_in_city travel_guide =
     (let city_label = label_city a2c c;
          pool_size = min 30 (max 6 (days_in_city * 3));
          atts = (case travel_guide of
                    None \<Rightarrow> []
                  | Some g \<Rightarrow> if attractions g \<noteq> [] then take (nat pool_size) (attractions g)
                             else [])
      in if atts = [] then top_attractions city_label pool_size else atts)"

definition slot_activity :: "real \<Rightarrow> attraction list \<Rightarrow> nat \<times> string \<times> real \<Rightarrow> Activity" where
  "slot_activity budget_per_day selected = (\<lambda>(idx, slot_label, share).
     let item = selected ! (idx mod length selected)
     in \<lparr>Activity.name = slot_label @ '': '' @ py_str (item ''name''),
         description = or_empty (item ''description''),
         est_cost = py_round2 (max 0 (budget_per_day * share)),
         link = or_None (item ''link'')\<rparr>)"

definition activities_for_city ::
  "(string \<rightharpoonup> string) \<Rightarrow> (string \<Rightarrow> int \<Rightarrow> attraction list) \<Rightarrow> string \<Rightarrow> real \<Rightarrow> int \<Rightarrow> int \<Rightarrow>
   TravelGuideInfo option \<Rightarrow> Activity list" where
  "activities_for_city a2c top_attractions c budget_per_day day_offset days_in_city travel_guide =
     (let atts = attraction_pool a2c top_attractions c days_in_city travel_guide
      in if atts = [] then []
         else
           let start = (day_offset * 3) mod int (length atts);
               selected = map (\<lambda>i. atts ! nat ((start + i) mod int (length atts))) [0, 1, 2];
               slots' = take (length selected) slots;
               transport_cost = local_transport_cost budget_per_day travel_guide;
               acts = (if transport_cost \<noteq> 0 \<and> transport_cost > 0
                       then [\<lparr>Activity.name = ''Getting around'',
                               description = ''Metro/tram/bus (typical single ride)'',
                               est_cost = transport_cost, link = None\<rparr>]
                       else [])
           in acts @ map (slot_activity budget_per_day selected) (enumerate 0 slots'))"

text \<open>
  \<^verbatim>\<open>_fit_to_budget\<close>: the activities of \<^verbatim>\<open>paid\<close> are the positive ones of the list
  itself, so rescaling \<^verbatim>\<open>paid\<close> rescales them in place; then the last activity of the
  list is set to 0 when the envelope is below 5.
\<close>

definition fit_to_budget :: "Activity list \<Rightarrow> real \<Rightarrow> Activity list" where
  "fit_to_budget acts budget_per_day =
     (let paid = filter (\<lambda>a. est_cost a > 0) acts;
          total = sum_list (map est_cost paid)
      in if total \<le> max budget_per_day 0 then acts
         else if total = 0 then acts
         else
           let scale = (if total \<noteq> 0 then budget_per_day / total else 1);
               acts1 = map (\<lambda>a. if est_cost a > 0
                                 then a\<lparr>est_cost := py_round2 (est_cost a * scale)\<rparr> else a) acts
           in if budget_per_day < 5 \<and> acts1 \<noteq> []
              then acts1[length acts1 - 1 := (last acts1)\<lparr>est_cost := 0\<rparr>]
              else acts1)"

text \<open>The two non-ASCII characters of the transport line, as UTF-8.\<close>

definition utf8_rightarrow :: string where
  "utf8_rightarrow = map char_of [226, 134, 146 :: nat]"

definition utf8_endash :: string where
  "utf8_endash = map char_of [226, 128, 147 :: nat]"

text \<open>The entries of the first day in a city: the transport line, then the check-in.\<close>

definition first_day_entries ::
  "(string \<rightharpoonup> string) \<Rightarrow> FlightOption list \<Rightarrow> HotelOption list \<Rightarrow> real \<Rightarrow> string \<Rightarrow> string \<Rightarrow>
   string option \<times> Activity list" where
  "first_day_entries a2c fls hs budget_per_day prev_city c =
     (let (transport, acts) =
            (case find_leg a2c prev_city c fls of
               Some leg \<Rightarrow>
                 (Some (label_city a2c (FlightOption.origin leg) @ '' '' @ utf8_rightarrow @ '' '' @
                        label_city a2c (destination leg) @ '' with '' @ airline leg @ '' ('' @
                        departure_time leg @ utf8_endash @ arrival_time leg @ '')''),
                  [\<lparr>Activity.name = ''Airport/ground transfer'',
                    description = ''Local bus/metro/taxi from airport to hotel (price varies)'',
                    est_cost = ground_transfer_cost budget_per_day, link = None\<rparr>])
             | None \<Rightarrow>
                 (Some (''Travel to '' @ label_city a2c c @ '' (train/bus recommended)''),
                  [\<lparr>Activity.name = ''Intercity transport'',
                    description = ''Train/bus transfer to '' @ label_city a2c c @ '' (price varies)'',
                    est_cost = intercity_transport_cost budget_per_day, link = None\<rparr>]));
          hotel_name = choose_hotel_name a2c c hs
      in (transport,
          acts @ (if hotel_name \<noteq> []
                  then [\<lparr>Activity.name = ''Hotel check-in'',
                          description = ''Check in at '' @ hotel_name,
                          est_cost = 0, link = None\<rparr>]
                  else [])))"

text \<open>One pass of the inner loop of \<^verbatim>\<open>run\<close>: the day \<open>day_idx\<close> of a city.\<close>

definition assemble_day ::
  "(string \<rightharpoonup> string) \<Rightarrow> (string \<Rightarrow> int \<Rightarrow> attraction list) \<Rightarrow> FlightOption list \<Rightarrow>
   HotelOption list \<Rightarrow> (string \<rightharpoonup> TravelGuideInfo) \<Rightarrow> real \<Rightarrow> string \<Rightarrow> string \<Rightarrow> int \<Rightarrow> int \<Rightarrow> int \<Rightarrow>
   ItineraryDay" where
  "assemble_day a2c top_attractions fls hs travel_guides budget_per_day prev_city c days_in_city day_idx
     current_date =
     (let (transport, acts) =
            (if day_idx = 0 then first_day_entries a2c fls hs budget_per_day prev_city c
             else (None, []));
          acts = acts @ activities_for_city a2c top_attractions c budget_per_day day_idx days_in_city
                          (travel_guides c);
          acts = fit_to_budget acts budget_per_day
      in \<lparr>date = current_date, city = label_city a2c c, activities = acts,
          transport = transport\<rparr>)"

subsection \<open>ItineraryPlannerAgent.run\<close>

text \<open>A \<^verbatim>\<open>for\<close> loop whose body may raise: the first error ends it.\<close>

fun fold_err :: "('a \<Rightarrow> 's \<Rightarrow> py_error + 's) \<Rightarrow> 'a list \<Rightarrow> 's \<Rightarrow> py_error + 's" where
  "fold_err f [] st = Inr st"
| "fold_err f (x # xs) st = (case f x st of Inl e \<Rightarrow> Inl e | Inr st' \<Rightarrow> fold_err f xs st')"

definition date_max :: int where
  "date_max = 3652059"

text \<open>
  The state of the inner loop is the current date and the days built so far; the state of
  the outer loop has the previous city as well. Each pass appends its day and then runs
  \<^verbatim>\<open>current_date += timedelta(days=1)\<close>, which raises when the next date would be past
  9999-12-31, also after the last day of the trip. \<^verbatim>\<open>days_per_city[city]\<close> raises on a
  missing key.
\<close>

definition plan_day ::
  "(string \<rightharpoonup> string) \<Rightarrow> (string \<Rightarrow> int \<Rightarrow> attraction list) \<Rightarrow> FlightOption list \<Rightarrow>
   HotelOption list \<Rightarrow> (string \<rightharpoonup> TravelGuideInfo) \<Rightarrow> real \<Rightarrow> string \<Rightarrow> string \<Rightarrow> int \<Rightarrow> int \<Rightarrow>
   int \<times> ItineraryDay list \<Rightarrow> py_error + int \<times> ItineraryDay list" where
  "plan_day a2c top_attractions fls hs travel_guides budget_per_day prev_city c days_in_city day_idx =
     (\<lambda>(current_date, itinerary_days).
        let itinerary_days =
              itinerary_days @
                [assemble_day a2c top_attractions fls hs travel_guides budget_per_day prev_city c
                   days_in_city day_idx current_date]
        in if current_date + 1 > date_max then Inl OverflowError
           else Inr (current_date + 1, itinerary_days))"

definition plan_city ::
  "(string \<rightharpoonup> string) \<Rightarrow> (string \<Rightarrow> int \<Rightarrow> attraction list) \<Rightarrow> FlightOption list \<Rightarrow>
   HotelOption list \<Rightarrow> (string \<rightharpoonup> TravelGuideInfo) \<Rightarrow> (string \<times> int) list \<Rightarrow> real \<Rightarrow> string \<Rightarrow>
   int \<times> string \<times> ItineraryDay list \<Rightarrow> py_error + int \<times> string \<times> ItineraryDay list" where
  "plan_city a2c top_attractions fls hs travel_guides days_per_city budget_per_day c =
     (\<lambda>(current_date, prev_city, itinerary_days).
        case map_of days_per_city c of
          None \<Rightarrow> Inl KeyError
        | Some days_in_city \<Rightarrow>
            (case fold_err (plan_day a2c top_attractions fls hs travel_guides budget_per_day
                              prev_city c days_in_city)
                    (map int [0..<nat days_in_city]) (current_date, itinerary_days) of
               Inl e \<Rightarrow> Inl e
             | Inr (current_date, itinerary_days) \<Rightarrow> Inr (current_date, c, itinerary_days)))"

fun plan_cities ::
  "(string \<rightharpoonup> string) \<Rightarrow> (string \<Rightarrow> int \<Rightarrow> attraction list) \<Rightarrow> FlightOption list \<Rightarrow>
   HotelOption list \<Rightarrow> (string \<rightharpoonup> TravelGuideInfo) \<Rightarrow> (string \<times> int) list \<Rightarrow> real \<Rightarrow> string list \<Rightarrow>
   int \<times> string \<times> ItineraryDay list \<Rightarrow> py_error + int \<times> string \<times> ItineraryDay list" where
  "plan_cities a2c top_attractions fls hs travel_guides days_per_city budget_per_day [] st = Inr st"
| "plan_cities a2c top_attractions fls hs travel_guides days_per_city budget_per_day (c # cs) st =
     (case plan_city a2c top_attractions fls hs travel_guides days_per_city budget_per_day c st of
        Inl e \<Rightarrow> Inl e
      | Inr st' \<Rightarrow>
          plan_cities a2c top_attractions fls hs travel_guides days_per_city budget_per_day cs st')"

definition ItineraryPlannerAgent_run ::
  "(string \<rightharpoonup> string) \<Rightarrow> (string \<Rightarrow> int \<Rightarrow> attraction list) \<Rightarrow> TravelPreferences \<Rightarrow>
   FlightOption list \<Rightarrow> HotelOption list \<Rightarrow> (string \<rightharpoonup> TravelGuideInfo) \<Rightarrow> py_error + Itinerary" where
  "ItineraryPlannerAgent_run a2c top_attractions prefs fls hs travel_guides =
     (case start_date prefs of
        None \<Rightarrow> Inl ValueError
      | Some start \<Rightarrow>
          let ordered_cities = build_city_route a2c prefs fls
          in (case allocate_days (num_days prefs) ordered_cities of
                Inl e \<Rightarrow> Inl e
              | Inr days_per_city \<Rightarrow>
                  let activity_budget_per_day =
                        estimate_activity_budget a2c prefs fls hs days_per_city
                  in (case plan_cities a2c top_attractions fls hs travel_guides days_per_city
                             activity_budget_per_day ordered_cities
                             (start, origin_city prefs, []) of
                        Inl e \<Rightarrow> Inl e
                      | Inr (current_date, prev_city, itinerary_days) \<Rightarrow>
                          Inr \<lparr>Itinerary.origin = label_city a2c (origin_city prefs),
                               destinations = map (label_city a2c) ordered_cities,
                               days = itinerary_days\<rparr>)))"

subsection \<open>BudgetOptimizerAgent: the order of the flights\<close>

text \<open>
  A \<^verbatim>\<open>datetime\<close> is its fields: year, month, day, hour, minute, second, microsecond.
  Python compares two of them field by field in that order.
\<close>

type_synonym datetime = "int \<times> int \<times> int \<times> int \<times> int \<times> int \<times> int"

definition datetime_max :: datetime where
  "datetime_max = (9999, 12, 31, 23, 59, 59, 999999)"

definition year :: "datetime \<Rightarrow> int" where
  "year dt = fst dt"

definition replace_year :: "datetime \<Rightarrow> int \<Rightarrow> datetime" where
  "replace_year dt y = (y, snd dt)"

text \<open>
  The characters that \<^verbatim>\<open>str.strip()\<close> removes, each as its UTF-8 bytes: U+0009 to U+000D,
  U+001C to U+0020, U+0085, U+00A0, U+1680, U+2000 to U+200A, U+2028, U+2029, U+202F, U+205F
  and U+3000.
\<close>

definition whitespace :: "string list" where
  "whitespace =
     map (\<lambda>n. [char_of n]) [9, 10, 11, 12, 13, 28, 29, 30, 31, 32 :: nat] @
     map (map char_of)
       [[194, 133], [194, 160], [225, 154, 128],
        [226, 128, 128], [226, 128, 129], [226, 128, 130], [226, 128, 131], [226, 128, 132],
        [226, 128, 133], [226, 128, 134], [226, 128, 135], [226, 128, 136], [226, 128, 137],
        [226, 128, 138], [226, 128, 168], [226, 128, 169], [226, 128, 175], [226, 129, 159],
        [227, 128, 128 :: nat]]"

text \<open>Removing, from the front, every leading character that is one of \<open>ws\<close>.\<close>

function strip_leading :: "string list \<Rightarrow> string \<Rightarrow> string" where
  "strip_leading ws s =
     (case find (\<lambda>w. w \<noteq> [] \<and> take (length w) s = w) ws of
        None \<Rightarrow> s
      | Some w \<Rightarrow> strip_leading ws (drop (length w) s))"
  by pat_completeness auto
termination
proof (relation "measure (\<lambda>(ws, s). length s)")
  show "wf (measure (\<lambda>(ws, s). length s))" by simp
next
  fix ws :: "string list" and s w :: string
  assume "find (\<lambda>w. w \<noteq> [] \<and> take (length w) s = w) ws = Some w"
  then have "w \<noteq> []" and t: "take (length w) s = w" by (auto simp: find_Some_iff)
  from arg_cong[OF t, of length] have "length w \<le> length s" by simp
  with \<open>w \<noteq> []\<close> show "((ws, drop (length w) s), (ws, s)) \<in> measure (\<lambda>(ws, s). length s)"
    by (cases w) simp_all
qed

declare strip_leading.simps [simp del]

text \<open>
  \<^verbatim>\<open>str.strip()\<close>: the white space of both ends. From the back, the bytes of a character
  come in reverse.
\<close>

definition strip :: "string \<Rightarrow> string" where
  "strip s = rev (strip_leading (map rev whitespace) (rev (strip_leading whitespace s)))"

definition fmts :: "string list" where
  "fmts = [''%Y-%m-%d %H:%M'', ''%Y-%m-%dT%H:%M'', ''%H:%M'', ''%I:%M %p'']"

text \<open>
  \<^verbatim>\<open>datetime.strptime\<close> belongs to Python's library: it is the parameter \<open>strptime\<close>, which
  answers \<open>None\<close> where the library raises \<^verbatim>\<open>ValueError\<close>. The loop over the formats
  returns at the first format that parses.
\<close>

fun try_formats :: "(string \<Rightarrow> string \<Rightarrow> datetime option) \<Rightarrow> string \<Rightarrow> string list \<Rightarrow> datetime option" where
  "try_formats strptime v [] = None"
| "try_formats strptime v (fmt # rest) =
     (case strptime v fmt of
        Some dt \<Rightarrow> Some (if year dt = 1900 then replace_year dt 2100 else dt)
      | None \<Rightarrow> try_formats strptime v rest)"

definition parse_departure_time ::
  "(string \<Rightarrow> string \<Rightarrow> datetime option) \<Rightarrow> string \<Rightarrow> datetime option" where
  "parse_departure_time strptime v =
     (if v = [] then None else try_formats strptime (strip v) fmts)"

definition flight_sort_key ::
  "(string \<Rightarrow> string \<Rightarrow> datetime option) \<Rightarrow> FlightOption \<Rightarrow> real \<times> datetime \<times> string" where
  "flight_sort_key strptime flight =
     (let dep = parse_departure_time strptime (departure_time flight)
      in (FlightOption.price flight,
          (case dep of Some dt \<Rightarrow> dt | None \<Rightarrow> datetime_max),
          departure_time flight))"

subsection \<open>BudgetOptimizerAgent.run\<close>

definition nights_per_city :: "Itinerary \<Rightarrow> (string \<times> int) list" where
  "nights_per_city itinerary =
     fold (\<lambda>day nights.
             AList.update (city day)
               ((case map_of nights (city day) of None \<Rightarrow> 0 | Some n \<Rightarrow> n) + 1) nights)
       (days itinerary) []"

text \<open>The legs \<open>origin \<rightarrow> d\<^sub>1 \<rightarrow> \<dots> \<rightarrow> d\<^sub>n \<rightarrow> origin\<close> over the itinerary's destinations.\<close>

definition leg_order :: "string \<Rightarrow> string list \<Rightarrow> (string \<times> string) list" where
  "leg_order origin_label dests =
     (let (legs, current) =
            fold (\<lambda>dest (legs, current). (legs @ [(current, dest)], dest)) dests
              ([], origin_label)
      in legs @ [(current, origin_label)])"

definition leg_key :: "(string \<rightharpoonup> string) \<Rightarrow> FlightOption \<Rightarrow> string \<times> string" where
  "leg_key a2c f = (label_city a2c (FlightOption.origin f), label_city a2c (destination f))"

text \<open>The dictionary \<^verbatim>\<open>flights_by_leg\<close>, filled by one pass over the sorted flights.\<close>

definition flights_by_leg ::
  "(string \<rightharpoonup> string) \<Rightarrow> (string \<Rightarrow> string \<Rightarrow> datetime option) \<Rightarrow> FlightOption list \<Rightarrow>
   (string \<times> string \<rightharpoonup> FlightOption)" where
  "flights_by_leg a2c strptime flights_sorted =
     fold (\<lambda>f m.
             (case m (leg_key a2c f) of
                None \<Rightarrow> m(leg_key a2c f \<mapsto> f)
              | Some existing \<Rightarrow>
                  if flight_sort_key strptime f < flight_sort_key strptime existing
                  then m(leg_key a2c f \<mapsto> f) else m))
       flights_sorted Map.empty"

definition choose_flights ::
  "(string \<rightharpoonup> string) \<Rightarrow> (string \<Rightarrow> string \<Rightarrow> datetime option) \<Rightarrow> TravelPreferences \<Rightarrow>
   FlightOption list \<Rightarrow> Itinerary \<Rightarrow> FlightOption list" where
  "choose_flights a2c strptime prefs fls itinerary =
     (let multi_city = length (TravelPreferences.destinations prefs) > 1;
          flights_sorted = sort_key (flight_sort_key strptime) fls
      in if multi_city
         then
           let origin_label = label_city a2c (origin_city prefs);
               legs = leg_order origin_label (Itinerary.destinations itinerary);
               by_leg = flights_by_leg a2c strptime flights_sorted
           in fold (\<lambda>leg chosen. (case by_leg leg of Some f \<Rightarrow> chosen @ [f] | None \<Rightarrow> chosen))
                legs []
         else
           let flight_budget = total_budget prefs * (45 / 100)
           in (case find (\<lambda>f. FlightOption.price f \<le> flight_budget) flights_sorted of
                 Some best_in_budget \<Rightarrow> [best_in_budget]
               | None \<Rightarrow> take 1 flights_sorted))"

definition nights_of :: "(string \<times> int) list \<Rightarrow> string \<Rightarrow> int" where
  "nights_of nights c = (case map_of nights c of None \<Rightarrow> 0 | Some n \<Rightarrow> n)"

text \<open>One pass of the hotel loop over \<^verbatim>\<open>prefs.destinations\<close>.\<close>

definition choose_hotel ::
  "(string \<rightharpoonup> string) \<Rightarrow> HotelOption list \<Rightarrow> (string \<times> int) list \<Rightarrow> (string \<times> real) list \<Rightarrow> real \<Rightarrow>
   string \<Rightarrow> (string \<times> HotelOption) list \<Rightarrow> (string \<times> HotelOption) list" where
  "choose_hotel a2c hs nights hotel_budget_per_city hotel_budget c chosen_hotels =
     (let city_label = label_city a2c c;
          candidates =
            filter (\<lambda>h. label_city a2c (location h) = city_label \<and>
                         HotelOption.price h * of_int (max 1 (nights_of nights city_label))
                           \<le> (case map_of hotel_budget_per_city city_label of
                                 None \<Rightarrow> hotel_budget | Some b \<Rightarrow> b)) hs
      in if candidates \<noteq> []
         then AList.update city_label (arg_min_list HotelOption.price candidates) chosen_hotels
         else
           let city_hotels = filter (\<lambda>h. label_city a2c (location h) = city_label) hs
           in if city_hotels \<noteq> []
              then AList.update city_label (arg_min_list HotelOption.price city_hotels)
                     chosen_hotels
              else chosen_hotels)"

definition activities_cost_of :: "Itinerary \<Rightarrow> real" where
  "activities_cost_of itinerary =
     sum_list (concat (map (\<lambda>day. map est_cost (ItineraryDay.activities day)) (days itinerary)))"

definition scale_activity_costs :: "Itinerary \<Rightarrow> real \<Rightarrow> Itinerary" where
  "scale_activity_costs itinerary scale =
     itinerary\<lparr>days :=
       map (\<lambda>day. day\<lparr>ItineraryDay.activities :=
                         map (\<lambda>activity. activity\<lparr>est_cost := py_round2 (est_cost activity * scale)\<rparr>)
                           (ItineraryDay.activities day)\<rparr>)
         (days itinerary)\<rparr>"

text \<open>
  The global reconciliation at the end of \<^verbatim>\<open>run\<close>: the itinerary, rescaled in place when
  the total spend is above the budget, and the activity cost that goes into the breakdown.
\<close>

definition reconcile :: "real \<Rightarrow> real \<Rightarrow> real \<Rightarrow> Itinerary \<Rightarrow> Itinerary \<times> real" where
  "reconcile budget flight_cost hotel_cost itinerary =
     (let activities_cost = activities_cost_of itinerary;
          total_spend = flight_cost + hotel_cost + activities_cost
      in if total_spend > budget \<and> activities_cost > 0
         then
           let allowed_for_activities = max 0 (budget - flight_cost - hotel_cost);
               scale = max 0 (min 1 (allowed_for_activities / activities_cost))
           in if scale < 1
              then
                let itinerary = scale_activity_costs itinerary scale
                in (itinerary, activities_cost_of itinerary)
              else (itinerary, activities_cost)
         else (itinerary, activities_cost))"

text \<open>
  The run returns the chosen flights, the chosen hotels and the breakdown; the itinerary,
  whose activities it may have rescaled in place, is the fourth component here.
  The divisor \<^verbatim>\<open>total_nights\<close> is \<^verbatim>\<open>sum(...) or max(1, prefs.num_days)\<close>, the divisor of
  \<^verbatim>\<open>per_city\<close> is \<^verbatim>\<open>max(1, len(prefs.destinations))\<close>, and the quotient by
  \<^verbatim>\<open>activities_cost\<close> is taken only when that is positive.
\<close>

definition BudgetOptimizerAgent_run ::
  "(string \<rightharpoonup> string) \<Rightarrow> (string \<Rightarrow> string \<Rightarrow> datetime option) \<Rightarrow> TravelPreferences \<Rightarrow>
   FlightOption list \<Rightarrow> HotelOption list \<Rightarrow> Itinerary \<Rightarrow>
   FlightOption list \<times> (string \<times> HotelOption) list \<times> BudgetBreakdown \<times> Itinerary" where
  "BudgetOptimizerAgent_run a2c strptime prefs fls hs itinerary =
     (let nights = nights_per_city itinerary;
          s = sum_list (map snd nights);
          total_nights = (if s = 0 then max 1 (num_days prefs) else s);
          chosen_flights = choose_flights a2c strptime prefs fls itinerary;
          flight_cost = sum_list (map FlightOption.price chosen_flights);
          hotel_budget = max 0 (total_budget prefs - flight_cost);
          hotel_budget_per_city =
            (if nights \<noteq> []
             then fold (\<lambda>(c, n). AList.update c (hotel_budget * (of_int n / of_int total_nights)))
                    nights []
             else
               let per_city =
                     hotel_budget / of_int (max 1 (int (length (TravelPreferences.destinations prefs))))
               in fold (\<lambda>c. AList.update (label_city a2c c) per_city)
                    (TravelPreferences.destinations prefs) []);
          chosen_hotels =
            fold (choose_hotel a2c hs nights hotel_budget_per_city hotel_budget)
              (TravelPreferences.destinations prefs) [];
          hotel_cost =
            sum_list (map (\<lambda>(c, h). HotelOption.price h * of_int (max 1 (nights_of nights c)))
                        chosen_hotels);
          (itinerary, activities_cost) =
            reconcile (total_budget prefs) flight_cost hotel_cost itinerary;
          budget = \<lparr>flights = flight_cost, hotels = hotel_cost, activities = activities_cost\<rparr>
      in (chosen_flights, chosen_hotels, budget, itinerary))"

subsection \<open>The wording of the specification, for comparison\<close>

text \<open>
  The walk over the flights alone: the first loop of \<^verbatim>\<open>_build_city_route\<close>.
\<close>

definition flight_walk ::
  "(string \<rightharpoonup> string) \<Rightarrow> TravelPreferences \<Rightarrow> FlightOption list \<Rightarrow> string list" where
  "flight_walk a2c prefs fls =
     fold (\<lambda>f. collect_city (label_city a2c (origin_city prefs)) (label_city a2c (destination f)))
       (sort_key depart_date fls) []"

text \<open>
  The route as the specification words it: the walk over the flights, and the declared
  destinations (without the origin) only when that walk yields no entry.
\<close>

definition route_fallback_only ::
  "(string \<rightharpoonup> string) \<Rightarrow> TravelPreferences \<Rightarrow> FlightOption list \<Rightarrow> string list" where
  "route_fallback_only a2c prefs fls =
     (if flight_walk a2c prefs fls \<noteq> [] then flight_walk a2c prefs fls
      else filter (\<lambda>c. c \<noteq> label_city a2c (origin_city prefs))
             (map (label_city a2c) (TravelPreferences.destinations prefs)))"


text \<open>
  The flight selection of a multi-destination trip as the specification words it, written
  without the functions of the agent. The normalized label of a place is the city name of
  the table when the place is an airport code of the table, and the place itself otherwise.
\<close>

definition normalized_label :: "(string \<rightharpoonup> string) \<Rightarrow> string \<Rightarrow> string" where
  "normalized_label a2c v = (case a2c v of Some city_name \<Rightarrow> city_name | None \<Rightarrow> v)"

text \<open>
  The parsed departure time of a text: none for the empty text; otherwise the date-time of
  the first of the four formats that the stripped text matches, in the year 2100 when the
  format gives the year 1900, which is what the library does for a text without a date.
\<close>

definition parsed_departure ::
  "(string \<Rightarrow> string \<Rightarrow> datetime option) \<Rightarrow> string \<Rightarrow> datetime option" where
  "parsed_departure strptime t =
     (if t = [] then None
      else
        (case concat (map (\<lambda>fmt. case strptime (strip t) fmt of Some dt \<Rightarrow> [dt] | None \<Rightarrow> [])
                        [''%Y-%m-%d %H:%M'', ''%Y-%m-%dT%H:%M'', ''%H:%M'', ''%I:%M %p'']) of
           [] \<Rightarrow> None
         | dt # _ \<Rightarrow> Some (if fst dt = 1900 then (2100, snd dt) else dt)))"

text \<open>
  The composite key: the price, then the parsed departure time, the largest date-time
  standing for a text that does not parse, then the text of the departure time.
\<close>

definition composite_key ::
  "(string \<Rightarrow> string \<Rightarrow> datetime option) \<Rightarrow> FlightOption \<Rightarrow> real \<times> datetime \<times> string" where
  "composite_key strptime f =
     (FlightOption.price f,
      (case parsed_departure strptime (departure_time f) of
         Some dt \<Rightarrow> dt
       | None \<Rightarrow> (9999, 12, 31, 23, 59, 59, 999999)),
      departure_time f)"

text \<open>
  For a leg, the first flight in the order of the composite key whose normalized labels
  of origin and destination are the leg; and the selection, leg by leg over
  \<open>origin \<rightarrow> city\<^sub>1 \<rightarrow> \<dots> \<rightarrow> city\<^sub>n \<rightarrow> origin\<close>, nothing standing for a leg without such a flight.
\<close>

definition cheapest_for_leg ::
  "(string \<rightharpoonup> string) \<Rightarrow> (string \<Rightarrow> string \<Rightarrow> datetime option) \<Rightarrow> FlightOption list \<Rightarrow>
   string \<times> string \<Rightarrow> FlightOption option" where
  "cheapest_for_leg a2c strptime fls leg =
     find (\<lambda>f. (normalized_label a2c (FlightOption.origin f),
                 normalized_label a2c (destination f)) = leg)
       (sort_key (composite_key strptime) fls)"

definition select_flights_spec ::
  "(string \<rightharpoonup> string) \<Rightarrow> (string \<Rightarrow> string \<Rightarrow> datetime option) \<Rightarrow> string \<Rightarrow> string list \<Rightarrow>
   FlightOption list \<Rightarrow> FlightOption list" where
  "select_flights_spec a2c strptime origin_place dests fls =
     concat (map (\<lambda>leg. case cheapest_for_leg a2c strptime fls leg of
                           Some f \<Rightarrow> [f] | None \<Rightarrow> [])
               (zip (normalized_label a2c origin_place # dests)
                  (dests @ [normalized_label a2c origin_place])))"


section \<open>Properties\<close>

subsection \<open>A city without attraction records\<close>

lemma first_day_entries_free:
  "a \<in> set (snd (first_day_entries a2c fls hs b prev_city c)) \<Longrightarrow> est_cost a = 0"
  by (auto simp: first_day_entries_def Let_def ground_transfer_cost_def
        intercity_transport_cost_def split: option.splits if_splits)

lemma first_day_entries_names:
  "a \<in> set (snd (first_day_entries a2c fls hs b prev_city c)) \<Longrightarrow>
   Activity.name a \<in> {''Airport/ground transfer'', ''Intercity transport'', ''Hotel check-in''}"
  by (auto simp: first_day_entries_def Let_def split: option.splits if_splits)

lemma fit_to_budget_free:
  assumes "\<forall>a \<in> set acts. est_cost a = 0"
  shows "fit_to_budget acts b = acts"
proof -
  from assms have "filter (\<lambda>a. est_cost a > 0) acts = []"
    by (auto simp: filter_empty_conv)
  then show ?thesis by (simp add: fit_to_budget_def Let_def)
qed

text \<open>
  Claim C10. When neither the travel guide nor the attractions client has a record for the
  city, \<^verbatim>\<open>_activities_for_city\<close> returns nothing, whatever the transit fare: the day has
  the entries of the first day in the city (transfer or intercity transport, check-in),
  all free, or no activity at all; no ``Getting around'' item is among them.
\<close>

theorem no_attractions_no_activities:
  "attraction_pool a2c top_attractions c days_in_city (travel_guides c) = [] \<Longrightarrow>
   activities_for_city a2c top_attractions c budget_per_day day_idx days_in_city (travel_guides c) = [] \<and>
   ItineraryDay.activities
     (assemble_day a2c top_attractions fls hs travel_guides budget_per_day prev_city c days_in_city
        day_idx current_date)
   = (if day_idx = 0 then snd (first_day_entries a2c fls hs budget_per_day prev_city c) else []) \<and>
   (\<forall>a \<in> set (ItineraryDay.activities
     (assemble_day a2c top_attractions fls hs travel_guides budget_per_day prev_city c days_in_city
        day_idx current_date)).
      Activity.name a \<in> {''Airport/ground transfer'', ''Intercity transport'', ''Hotel check-in''}
      \<and> est_cost a = 0)"
proof -
  assume h: "attraction_pool a2c top_attractions c days_in_city (travel_guides c) = []"
  have a: "activities_for_city a2c top_attractions c budget_per_day day_idx days_in_city (travel_guides c) = []"
    using h by (simp add: activities_for_city_def)
  have b: "ItineraryDay.activities
     (assemble_day a2c top_attractions fls hs travel_guides budget_per_day prev_city c days_in_city
        day_idx current_date)
   = (if day_idx = 0 then snd (first_day_entries a2c fls hs budget_per_day prev_city c) else [])"
    using a first_day_entries_free[of _ a2c fls hs budget_per_day prev_city c]
    by (auto simp: assemble_day_def Let_def split: prod.splits intro!: fit_to_budget_free)
  show ?thesis
    using a b first_day_entries_names[of _ a2c fls hs budget_per_day prev_city c]
      first_day_entries_free[of _ a2c fls hs budget_per_day prev_city c]
    by (auto split: if_splits)
qed

theorem no_attractions_no_activities_witness:
  "attraction_pool Map.empty (\<lambda>c n. []) ''Rome'' 2
     ([''Rome'' \<mapsto> \<lparr>tips = [], transit_fare = Some 2, attractions = []\<rparr>] ''Rome'') = [] \<and>
   activities_for_city Map.empty (\<lambda>c n. []) ''Rome'' 40 0 2
     ([''Rome'' \<mapsto> \<lparr>tips = [], transit_fare = Some 2, attractions = []\<rparr>] ''Rome'') = [] \<and>
   ItineraryDay.activities
     (assemble_day Map.empty (\<lambda>c n. []) [] []
        [''Rome'' \<mapsto> \<lparr>tips = [], transit_fare = Some 2, attractions = []\<rparr>] 40 ''Baku'' ''Rome'' 2 0 100)
   = [\<lparr>Activity.name = ''Intercity transport'',
       description = ''Train/bus transfer to Rome (price varies)'', est_cost = 0, link = None\<rparr>]"
  using no_attractions_no_activities
    [of Map.empty "\<lambda>c n. []" "''Rome''" 2
        "[''Rome'' \<mapsto> \<lparr>tips = [], transit_fare = Some 2, attractions = []\<rparr>]" 40 0 "[]" "[]"
        "''Baku''" 100]
  by (simp add: attraction_pool_def first_day_entries_def find_leg_def choose_hotel_name_def
        label_city_def intercity_transport_cost_def)

subsection \<open>Day allocation\<close>

lemma update_fresh: "k \<notin> fst ` set al \<Longrightarrow> AList.update k v al = al @ [(k, v)]"
  by (induction al) auto

lemma fold_update_distinct:
  "distinct (map fst al @ cs) \<Longrightarrow>
   fold (\<lambda>(i, c). AList.update c (g i)) (enumerate n cs) al
   = al @ map (\<lambda>(i, c). (c, g i)) (enumerate n cs)"
proof (induction cs arbitrary: n al)
  case Nil
  then show ?case by simp
next
  case (Cons c cs)
  have "c \<notin> fst ` set al" using Cons.prems by auto
  then have u: "AList.update c (g n) al = al @ [(c, g n)]" by (rule update_fresh)
  have "distinct (map fst (al @ [(c, g n)]) @ cs)" using Cons.prems by auto
  from Cons.IH[OF this] u show ?case by simp
qed

lemma enumerate_as_zip_from:
  "map (\<lambda>(i, c). (c, g i)) (enumerate n cs) = zip cs (map g [n..<n + length cs])"
proof (induction cs arbitrary: n)
  case Nil
  then show ?case by simp
next
  case (Cons c cs)
  have "[n..<n + length (c # cs)] = n # [Suc n..<Suc n + length cs]"
    by (subst upt_rec) simp
  with Cons.IH[of "Suc n"] show ?case by simp
qed

lemma enumerate_as_zip:
  "map (\<lambda>(i, c). (c, g i)) (enumerate 0 cs) = zip cs (map g [0..<length cs])"
  using enumerate_as_zip_from[of g 0 cs] by simp

lemma sum_list_indicator:
  "r \<le> n \<Longrightarrow> sum_list (map (\<lambda>i. b + (if int i < int r then 1 else 0)) [0..<n]) = int n * b + int r"
proof (induction n)
  case 0
  then show ?case by simp
next
  case (Suc n)
  show ?case
  proof (cases "r \<le> n")
    case True
    with Suc.IH show ?thesis by (simp add: algebra_simps)
  next
    case False
    with Suc.prems have r: "r = Suc n" by simp
    have "sum_list (map (\<lambda>i. b + (if int i < int r then 1 else 0)) [0..<n])
          = sum_list (map (\<lambda>i. b + 1) [0..<n])"
      by (rule arg_cong[where f=sum_list], rule map_cong) (auto simp: r)
    also have "\<dots> = int n * (b + 1)" by (simp add: sum_list_triv)
    finally show ?thesis by (simp add: r algebra_simps)
  qed
qed

text \<open>The allocation of a duplicate-free, non-empty route, position by position.\<close>

lemma allocate_days_zip:
  assumes "cities \<noteq> []" and "distinct cities"
  shows "allocate_days d cities =
         Inr (zip cities
                (map (\<lambda>i. max 1 d div int (length cities) +
                          (if int i < max 1 d mod int (length cities) then 1 else 0))
                   [0..<length cities]))"
proof -
  have "distinct (map fst ([] :: (string \<times> int) list) @ cities)" using assms by simp
  from fold_update_distinct[OF this, of _ 0] show ?thesis
    using assms by (simp add: allocate_days_def Let_def enumerate_as_zip)
qed

lemma allocate_days_sum:
  assumes "n > 0"
  shows "sum_list (map (\<lambda>i. m div int n + (if int i < m mod int n then 1 else 0)) [0..<n]) = m"
proof -
  have r0: "0 \<le> m mod int n" and r1: "m mod int n < int n" using assms by simp_all
  define r where "r = nat (m mod int n)"
  have r: "int r = m mod int n" and rn: "r \<le> n" using r0 r1 by (simp_all add: r_def)
  have "sum_list (map (\<lambda>i. m div int n + (if int i < int r then 1 else 0)) [0..<n])
        = int n * (m div int n) + int r"
    using rn by (rule sum_list_indicator)
  then show ?thesis by (simp add: r)
qed

text \<open>
  The days of a trip of \<open>d \<ge> 1\<close> days over a non-empty list without repeated cities: the
  mapping has the cities in order, the city at position \<open>i\<close> gets \<open>d // N + 1\<close> days when
  \<open>i < d % N\<close> and \<open>d // N\<close> days otherwise, and the counts add up to \<open>d\<close>.
\<close>

lemma allocate_days_distinct:
  assumes "1 \<le> d" and "cities \<noteq> []" and "distinct cities"
  shows "\<exists>al. allocate_days d cities = Inr al \<and> map fst al = cities \<and>
           (\<forall>i < length cities.
              map_of al (cities ! i) =
              Some (d div int (length cities) +
                    (if int i < d mod int (length cities) then 1 else 0))) \<and>
           sum_list (map snd al) = d"
proof -
  let ?g = "\<lambda>i. d div int (length cities) + (if int i < d mod int (length cities) then 1 else 0)"
  let ?al = "zip cities (map ?g [0..<length cities])"
  have d: "max 1 d = d" using assms(1) by simp
  have a: "allocate_days d cities = Inr ?al"
    using allocate_days_zip[OF assms(2,3), of d] by (simp add: d)
  have b: "map fst ?al = cities" by simp
  have c: "map_of ?al (cities ! i) = Some (?g i)" if "i < length cities" for i
    using map_of_zip_nth[of cities "map ?g [0..<length cities]" i] that assms(3) by simp
  have "sum_list (map snd ?al) = sum_list (map ?g [0..<length cities])" by simp
  also have "\<dots> = d" using assms(2) by (intro allocate_days_sum) simp
  finally have s: "sum_list (map snd ?al) = d" .
  from a b c s show ?thesis by blast
qed

subsection \<open>The route\<close>

lemma first_occurrences_Cons:
  "rev (remdups (rev (x # ys))) = x # rev (remdups (rev (filter (\<lambda>y. y \<noteq> x) ys)))"
proof -
  have "remdups (zs @ [x]) = remdups (filter (\<lambda>y. y \<noteq> x) zs) @ [x]" for zs
    by (induction zs) auto
  from this[of "rev ys"] show ?thesis by (simp add: rev_filter)
qed

text \<open>
  A loop of \<^verbatim>\<open>_build_city_route\<close> appends, to the route it starts from, the first
  occurrences of the labels that are neither the origin nor on that route.
\<close>

lemma fold_collect_city:
  "fold (\<lambda>x. collect_city orig (f x)) xs route =
   route @ rev (remdups (rev (filter (\<lambda>c. c \<noteq> orig \<and> c \<notin> set route) (map f xs))))"
proof (induction xs arbitrary: route)
  case Nil
  then show ?case by simp
next
  case (Cons x xs)
  show ?case
  proof (cases "f x = orig \<or> f x \<in> set route")
    case True
    then have "collect_city orig (f x) route = route" by (auto simp: collect_city_def)
    with Cons.IH[of route] True show ?thesis by auto
  next
    case False
    then have c: "collect_city orig (f x) route = route @ [f x]" by (simp add: collect_city_def)
    have e: "filter (\<lambda>y. y \<noteq> f x) (filter (\<lambda>c. c \<noteq> orig \<and> c \<notin> set route) (map f xs))
          = filter (\<lambda>c. c \<noteq> orig \<and> c \<notin> set (route @ [f x])) (map f xs)"
      by (auto intro: filter_cong)
    have "fold (\<lambda>x. collect_city orig (f x)) (x # xs) route
          = fold (\<lambda>x. collect_city orig (f x)) xs (route @ [f x])"
      by (simp add: c)
    also have "\<dots> = (route @ [f x]) @
        rev (remdups (rev (filter (\<lambda>c. c \<noteq> orig \<and> c \<notin> set (route @ [f x])) (map f xs))))"
      by (rule Cons.IH)
    also have "\<dots> = route @
        rev (remdups (rev (f x # filter (\<lambda>c. c \<noteq> orig \<and> c \<notin> set route) (map f xs))))"
      unfolding first_occurrences_Cons e by simp
    also have "f x # filter (\<lambda>c. c \<noteq> orig \<and> c \<notin> set route) (map f xs)
               = filter (\<lambda>c. c \<noteq> orig \<and> c \<notin> set route) (map f (x # xs))"
      using False by simp
    finally show ?thesis .
  qed
qed

lemma fold_collect_city_no_origin:
  "orig \<notin> set route \<Longrightarrow> orig \<notin> set (fold (\<lambda>x. collect_city orig (f x)) xs route)"
  by (simp add: fold_collect_city)

lemma fold_collect_city_distinct:
  "distinct route \<Longrightarrow> distinct (fold (\<lambda>x. collect_city orig (f x)) xs route)"
  by (auto simp: fold_collect_city)

text \<open>
  The list comprehension \<^verbatim>\<open>filtered\<close> removes nothing, and the last line of
  \<^verbatim>\<open>_build_city_route\<close> is reached only with an empty list of its own.
\<close>

lemma build_city_route_loops:
  "build_city_route a2c prefs fls =
   fold (\<lambda>dest. collect_city (label_city a2c (origin_city prefs)) (label_city a2c dest))
     (TravelPreferences.destinations prefs) (flight_walk a2c prefs fls)"
proof -
  let ?o = "label_city a2c (origin_city prefs)"
  let ?r2 = "fold (\<lambda>dest. collect_city ?o (label_city a2c dest))
               (TravelPreferences.destinations prefs) (flight_walk a2c prefs fls)"
  have "?o \<notin> set (flight_walk a2c prefs fls)"
    unfolding flight_walk_def by (rule fold_collect_city_no_origin) simp
  then have "?o \<notin> set ?r2" by (rule fold_collect_city_no_origin)
  then have f: "filter (\<lambda>c. c \<noteq> ?o) ?r2 = ?r2" by (auto simp: filter_id_conv)
  have e: "map (label_city a2c)
             (filter (\<lambda>d. label_city a2c d \<noteq> ?o) (TravelPreferences.destinations prefs)) = []"
    if "?r2 = []"
  proof -
    from that have w: "flight_walk a2c prefs fls = []"
      and g: "filter (\<lambda>c. c \<noteq> ?o \<and> c \<notin> set (flight_walk a2c prefs fls))
                (map (label_city a2c) (TravelPreferences.destinations prefs)) = []"
      by (auto simp: fold_collect_city)
    have "\<forall>d \<in> set (TravelPreferences.destinations prefs). label_city a2c d = ?o"
      using g unfolding w by (auto simp: filter_empty_conv)
    then show ?thesis by (auto simp: filter_empty_conv)
  qed
  have "build_city_route a2c prefs fls =
          (if filter (\<lambda>c. c \<noteq> ?o) ?r2 \<noteq> [] then filter (\<lambda>c. c \<noteq> ?o) ?r2
           else map (label_city a2c)
                  (filter (\<lambda>d. label_city a2c d \<noteq> ?o) (TravelPreferences.destinations prefs)))"
    unfolding build_city_route_def Let_def flight_walk_def ..
  also have "\<dots> = ?r2"
  proof (cases "?r2 = []")
    case True
    from e[OF True] True show ?thesis unfolding f by simp
  next
    case False
    then show ?thesis unfolding f by simp
  qed
  finally show ?thesis .
qed

lemma build_city_route_distinct: "distinct (build_city_route a2c prefs fls)"
  unfolding build_city_route_loops flight_walk_def
  by (intro fold_collect_city_distinct) simp

text \<open>
  Claim C7, as the code has it. The route is the walk over the flights sorted by departure
  date (each destination label, unless it is the origin label or already collected),
  followed by the declared destinations in their order, each unless it is the origin label
  or already on the route. Every declared destination other than the origin is therefore on
  the route, whether or not the walk over the flights yields an entry.
\<close>

theorem build_city_route_flights_then_declared:
  "build_city_route a2c prefs fls =
     flight_walk a2c prefs fls @
     rev (remdups (rev (filter (\<lambda>c. c \<noteq> label_city a2c (origin_city prefs) \<and>
                                    c \<notin> set (flight_walk a2c prefs fls))
                          (map (label_city a2c) (TravelPreferences.destinations prefs))))) \<and>
   flight_walk a2c prefs fls =
     rev (remdups (rev (filter (\<lambda>c. c \<noteq> label_city a2c (origin_city prefs))
                          (map (\<lambda>f. label_city a2c (destination f)) (sort_key depart_date fls)))))"
  by (simp add: build_city_route_loops fold_collect_city) (simp add: flight_walk_def fold_collect_city)

text \<open>
  Claim C7 as stated, the declared order being a fallback only: one flight to Paris and
  the declared destinations Paris and Rome give the route Paris, Rome, although the walk
  over the flights yields Paris.
\<close>

theorem build_city_route_not_fallback_only:
  "build_city_route Map.empty
     \<lparr>origin_city = ''Baku'', destinations = [''Paris'', ''Rome''], num_days = 4,
      num_locations = 2, total_budget = 1000, start_date = Some 739626, end_date = Some 739630\<rparr>
     [\<lparr>FlightOption.origin = ''Baku'', destination = ''Paris'', depart_date = ''2026-01-10'',
       airline = ''AZAL'', price = 200, departure_time = ''08:00'', arrival_time = ''11:00'',
       booking_link = []\<rparr>]
   = [''Paris'', ''Rome''] \<and>
   route_fallback_only Map.empty
     \<lparr>origin_city = ''Baku'', destinations = [''Paris'', ''Rome''], num_days = 4,
      num_locations = 2, total_budget = 1000, start_date = Some 739626, end_date = Some 739630\<rparr>
     [\<lparr>FlightOption.origin = ''Baku'', destination = ''Paris'', depart_date = ''2026-01-10'',
       airline = ''AZAL'', price = 200, departure_time = ''08:00'', arrival_time = ''11:00'',
       booking_link = []\<rparr>]
   = [''Paris'']"
  by (simp add: build_city_route_def route_fallback_only_def flight_walk_def collect_city_def
        label_city_def)

subsection \<open>The days of the cities of the route\<close>

text \<open>
  Claim C2. \<^verbatim>\<open>_allocate_days\<close> is called by \<^verbatim>\<open>run\<close> alone, on the list that
  \<^verbatim>\<open>_build_city_route\<close> returns. For every number of days \<open>d \<ge> 1\<close> and every such list of
  \<open>N \<ge> 1\<close> cities, the allocation maps the cities, in route order, to counts that add up to
  \<open>d\<close>: with \<open>base = d // N\<close> and \<open>remainder = d % N\<close> the first \<open>remainder\<close> cities get
  \<open>base + 1\<close> days and every other city gets \<open>base\<close> days.
\<close>

theorem allocate_days_route:
  assumes "1 \<le> d" and "cities = build_city_route a2c prefs fls" and "cities \<noteq> []"
  shows "\<exists>al. allocate_days d cities = Inr al \<and> map fst al = cities \<and>
           (\<forall>i < length cities.
              map_of al (cities ! i) =
              Some (d div int (length cities) +
                    (if int i < d mod int (length cities) then 1 else 0))) \<and>
           sum_list (map snd al) = d"
proof -
  have "distinct cities" unfolding assms(2) by (rule build_city_route_distinct)
  with assms(1,3) show ?thesis by (rule allocate_days_distinct)
qed

theorem allocate_days_route_witness:
  "(1 :: int) \<le> 7 \<and>
   build_city_route Map.empty
     \<lparr>origin_city = ''Baku'', destinations = [''Rome'', ''Paris'', ''Vienna''], num_days = 7,
      num_locations = 3, total_budget = 2000, start_date = Some 739626,
      end_date = Some 739633\<rparr> []
   = [''Rome'', ''Paris'', ''Vienna''] \<and>
   allocate_days 7 [''Rome'', ''Paris'', ''Vienna'']
   = Inr [(''Rome'', 3), (''Paris'', 2), (''Vienna'', 2)] \<and>
   (\<exists>al. allocate_days 7 [''Rome'', ''Paris'', ''Vienna''] = Inr al \<and>
         sum_list (map snd al) = 7)"
proof -
  have r: "[''Rome'', ''Paris'', ''Vienna''] = build_city_route Map.empty
     \<lparr>origin_city = ''Baku'', destinations = [''Rome'', ''Paris'', ''Vienna''], num_days = 7,
      num_locations = 3, total_budget = 2000, start_date = Some 739626,
      end_date = Some 739633\<rparr> []"
    by (simp add: build_city_route_def collect_city_def label_city_def)
  have a: "allocate_days 7 [''Rome'', ''Paris'', ''Vienna'']
           = Inr [(''Rome'', 3), (''Paris'', 2), (''Vienna'', 2)]"
    by (simp add: allocate_days_def enumerate_eq_zip)
  from allocate_days_route[OF _ r, of 7] r a show ?thesis by auto
qed

subsection \<open>Division by the number of cities\<close>

lemma airport_to_city_Baku: "airport_to_city ''Baku'' = None"
  by (simp add: airport_to_city_def CITY_TO_AIRPORT_def)

text \<open>
  Claim C6. The divisors \<^verbatim>\<open>total_days\<close>, \<^verbatim>\<open>total_nights\<close> and the number of declared
  destinations are replaced by 1 when they are 0, but \<^verbatim>\<open>_allocate_days\<close> divides by
  \<^verbatim>\<open>len(cities)\<close> as it is. A trip from Baku whose only declared destination is Baku, with no
  flight found, has an empty route, and the run ends in \<^verbatim>\<open>ZeroDivisionError\<close>.
\<close>

theorem run_empty_route_ZeroDivisionError:
  "ItineraryPlannerAgent_run airport_to_city (\<lambda>c n. [])
     \<lparr>origin_city = ''Baku'', destinations = [''Baku''], num_days = 1, num_locations = 1,
      total_budget = 0, start_date = Some 739626, end_date = Some 739627\<rparr> [] [] Map.empty
   = Inl ZeroDivisionError"
  by (simp add: ItineraryPlannerAgent_run_def build_city_route_def allocate_days_def
        collect_city_def label_city_def airport_to_city_Baku)

subsection \<open>The sightseeing slots of a day\<close>




subsection \<open>Rounding\<close>


lemma round_half_even_nonneg: "0 \<le> x \<Longrightarrow> 0 \<le> round_half_even x"
proof -
  assume "0 \<le> x"
  then have "0 \<le> \<lfloor>x\<rfloor>" by simp
  then show ?thesis by (auto simp: round_half_even_def Let_def)
qed

lemma py_round2_nonneg: "0 \<le> x \<Longrightarrow> 0 \<le> py_round2 x"
  using round_half_even_nonneg[of "x * 100"] by (simp add: py_round2_def)


subsection \<open>Costs are never negative\<close>

lemma activities_for_city_nonneg:
  "a \<in> set (activities_for_city a2c top_attractions c b day_offset days_in_city g) \<Longrightarrow>
   0 \<le> est_cost a"
  by (auto simp: activities_for_city_def Let_def slots_def slot_activity_def py_round2_nonneg
        split: if_splits)

lemma fit_to_budget_nonneg:
  assumes "0 \<le> b" and "\<forall>a \<in> set acts. 0 \<le> est_cost a"
    and "a \<in> set (fit_to_budget acts b)"
  shows "0 \<le> est_cost a"
proof -
  let ?total = "sum_list (map est_cost (filter (\<lambda>a. est_cost a > 0) acts))"
  let ?acts1 = "map (\<lambda>a. if est_cost a > 0
                          then a\<lparr>est_cost := py_round2 (est_cost a * (b / ?total))\<rparr> else a) acts"
  have t: "0 \<le> ?total" by (rule sum_list_nonneg) auto
  then have s: "0 \<le> b / ?total" using assms(1) by simp
  have a1: "0 \<le> est_cost x" if "x \<in> set ?acts1" for x
  proof -
    from that obtain y where y: "y \<in> set acts"
      and x: "x = (if est_cost y > 0
                   then y\<lparr>est_cost := py_round2 (est_cost y * (b / ?total))\<rparr> else y)"
      by auto
    have "0 \<le> est_cost y * (b / ?total)" using y assms(2) s by (intro mult_nonneg_nonneg) auto
    then have "0 \<le> py_round2 (est_cost y * (b / ?total))" by (rule py_round2_nonneg)
    then show ?thesis using x y assms(2) by (auto split: if_splits)
  qed
  have a2: "0 \<le> est_cost x" if "x \<in> set (?acts1[length ?acts1 - 1 := (last ?acts1)\<lparr>est_cost := 0\<rparr>])" for x
  proof -
    from that have "x \<in> insert ((last ?acts1)\<lparr>est_cost := 0\<rparr>) (set ?acts1)"
      using set_update_subset_insert by fastforce
    then show ?thesis using a1 by auto
  qed
  from assms(3) consider "a \<in> set acts" | "a \<in> set ?acts1"
    | "a \<in> set (?acts1[length ?acts1 - 1 := (last ?acts1)\<lparr>est_cost := 0\<rparr>])"
    unfolding fit_to_budget_def Let_def by (auto split: if_splits)
  then show ?thesis using assms(2) a1 a2 by cases auto
qed

lemma estimate_activity_budget_nonneg:
  assumes "\<forall>n \<in> set (map snd days_per_city). 0 \<le> n"
  shows "0 \<le> estimate_activity_budget a2c prefs fls hs days_per_city"
proof -
  have "0 \<le> sum_list (map snd days_per_city)" using assms by (intro sum_list_nonneg) auto
  then show ?thesis
    by (auto simp: estimate_activity_budget_def Let_def)
qed

lemma assemble_day_city [simp]:
  "city (assemble_day a2c top_attractions fls hs travel_guides b prev_city c n i d) = label_city a2c c"
  by (simp add: assemble_day_def Let_def split: prod.splits)

lemma assemble_day_nonneg:
  assumes "0 \<le> b"
    and "a \<in> set (ItineraryDay.activities
                    (assemble_day a2c top_attractions fls hs travel_guides b prev_city c n i d))"
  shows "0 \<le> est_cost a"
proof -
  define acts where
    "acts = (if i = 0 then snd (first_day_entries a2c fls hs b prev_city c) else [])"
  have e: "ItineraryDay.activities
          (assemble_day a2c top_attractions fls hs travel_guides b prev_city c n i d)
        = fit_to_budget (acts @ activities_for_city a2c top_attractions c b i n (travel_guides c)) b"
    by (simp add: assemble_day_def Let_def acts_def split: prod.splits)
  have f: "acts = [] \<or> acts = snd (first_day_entries a2c fls hs b prev_city c)"
    by (simp add: acts_def)
  have "\<forall>x \<in> set (acts @ activities_for_city a2c top_attractions c b i n (travel_guides c)).
          0 \<le> est_cost x"
    using f first_day_entries_free[of _ a2c fls hs b prev_city c] activities_for_city_nonneg
    by fastforce
  from fit_to_budget_nonneg[OF assms(1) this] assms(2) show ?thesis unfolding e by blast
qed

subsection \<open>Fitting a day, and fitting it again\<close>

lemma py_round2_nonpos: "x \<le> 0 \<Longrightarrow> py_round2 x \<le> 0"
proof -
  assume x: "x \<le> 0"
  define f where "f = \<lfloor>x * 100\<rfloor>"
  have le: "of_int f \<le> x * 100" and gt: "x * 100 < of_int f + 1"
    unfolding f_def by linarith+
  have "round_half_even (x * 100) \<le> 0"
  proof (cases "x * 100 - of_int f < 1 / 2")
    case True
    have "f \<le> 0" using le x by (simp add: f_def)
    with True show ?thesis by (simp add: round_half_even_def Let_def f_def[symmetric])
  next
    case False
    then have "of_int f + 1 / 2 \<le> x * 100" by simp
    with x have "real_of_int f < 0" by linarith
    then have "f + 1 \<le> 0" by simp
    moreover have "f \<le> 0" using \<open>f + 1 \<le> 0\<close> by simp
    ultimately show ?thesis
      by (simp add: round_half_even_def Let_def f_def[symmetric])
  qed
  then show ?thesis by (simp add: py_round2_def divide_nonpos_pos)
qed







subsection \<open>The days that the run builds\<close>

lemma fold_err_append:
  "fold_err f (xs @ ys) st =
   (case fold_err f xs st of Inl e \<Rightarrow> Inl e | Inr st' \<Rightarrow> fold_err f ys st')"
  by (induction xs arbitrary: st) (auto split: sum.splits)

text \<open>When the inner loop ends without error, it has appended one day for each index.\<close>

lemma fold_plan_day:
  "fold_err (plan_day a2c top_attractions fls hs tg b prev_city c n) (map int [0..<k]) (cd, ds)
     = Inr (cd', ds') \<Longrightarrow>
   cd' = cd + int k \<and>
   ds' = ds @ map (\<lambda>i. assemble_day a2c top_attractions fls hs tg b prev_city c n (int i)
                          (cd + int i)) [0..<k]"
proof (induction k arbitrary: cd' ds')
  case 0
  then show ?case by simp
next
  case (Suc k)
  from Suc.prems obtain cd1 ds1 where
    1: "fold_err (plan_day a2c top_attractions fls hs tg b prev_city c n) (map int [0..<k])
          (cd, ds) = Inr (cd1, ds1)"
    and 2: "plan_day a2c top_attractions fls hs tg b prev_city c n (int k) (cd1, ds1)
            = Inr (cd', ds')"
    by (auto simp: fold_err_append split: sum.splits)
  from Suc.IH[OF 1] have cd1: "cd1 = cd + int k"
    and ds1: "ds1 = ds @ map (\<lambda>i. assemble_day a2c top_attractions fls hs tg b prev_city c n
                                    (int i) (cd + int i)) [0..<k]"
    by simp_all
  from 2 have "cd' = cd1 + 1"
    and "ds' = ds1 @ [assemble_day a2c top_attractions fls hs tg b prev_city c n (int k) cd1]"
    by (auto simp: plan_day_def Let_def split: if_splits)
  then show ?case by (simp add: cd1 ds1)
qed

lemma plan_city_Inr:
  assumes "plan_city a2c top_attractions fls hs tg dpc b c (cd, prev_city, ds) = Inr (cd', prev', ds')"
  shows "\<exists>n. map_of dpc c = Some n \<and> cd' = cd + int (nat n) \<and> prev' = c \<and>
             ds' = ds @ map (\<lambda>i. assemble_day a2c top_attractions fls hs tg b prev_city c n (int i)
                                   (cd + int i)) [0..<nat n]"
proof -
  from assms obtain n where n: "map_of dpc c = Some n"
    and f: "fold_err (plan_day a2c top_attractions fls hs tg b prev_city c n)
              (map int [0..<nat n]) (cd, ds) = Inr (cd', ds')"
    and p: "prev' = c"
    by (auto simp: plan_city_def split: option.splits sum.splits)
  from fold_plan_day[OF f] n p show ?thesis by simp
qed

text \<open>
  When the outer loop ends without error, it has appended days only, each built by the inner
  loop for a city of the route; a city of the route has a day exactly when its count is
  positive.
\<close>

lemma plan_cities_days:
  assumes "plan_cities a2c top_attractions fls hs tg dpc b cs (cd, prev_city, ds)
             = Inr (cd', prev', ds')"
  shows "\<exists>new. ds' = ds @ new \<and>
           (\<forall>day \<in> set new. \<exists>c \<in> set cs. \<exists>p n i d.
              day = assemble_day a2c top_attractions fls hs tg b p c n i d) \<and>
           (\<forall>c \<in> set cs. \<forall>n. map_of dpc c = Some n \<longrightarrow> 0 < n \<longrightarrow>
              label_city a2c c \<in> city ` set new) \<and>
           (\<forall>c. label_city a2c c \<in> city ` set new \<longrightarrow>
              (\<exists>c' \<in> set cs. \<exists>n. label_city a2c c' = label_city a2c c \<and>
                 map_of dpc c' = Some n \<and> 0 < n))"
  using assms
proof (induction cs arbitrary: cd prev_city ds)
  case Nil
  then show ?case by simp
next
  case (Cons c cs)
  from Cons.prems obtain cd1 p1 ds1 where
    pc: "plan_city a2c top_attractions fls hs tg dpc b c (cd, prev_city, ds) = Inr (cd1, p1, ds1)"
    and rest: "plan_cities a2c top_attractions fls hs tg dpc b cs (cd1, p1, ds1)
               = Inr (cd', prev', ds')"
    by (auto split: sum.splits)
  from plan_city_Inr[OF pc] obtain n where n: "map_of dpc c = Some n"
    and ds1: "ds1 = ds @ map (\<lambda>i. assemble_day a2c top_attractions fls hs tg b prev_city c n
                                    (int i) (cd + int i)) [0..<nat n]"
    by blast
  let ?mine = "map (\<lambda>i. assemble_day a2c top_attractions fls hs tg b prev_city c n (int i)
                          (cd + int i)) [0..<nat n]"
  from Cons.IH[OF rest]
  obtain new where
    r: "ds' = ds1 @ new"
    and d: "\<forall>day \<in> set new. \<exists>c \<in> set cs. \<exists>p n i d.
              day = assemble_day a2c top_attractions fls hs tg b p c n i d"
    and l: "\<forall>c \<in> set cs. \<forall>n. map_of dpc c = Some n \<longrightarrow> 0 < n \<longrightarrow>
              label_city a2c c \<in> city ` set new"
    and k: "\<forall>c. label_city a2c c \<in> city ` set new \<longrightarrow>
              (\<exists>c' \<in> set cs. \<exists>n. label_city a2c c' = label_city a2c c \<and>
                 map_of dpc c' = Some n \<and> 0 < n)"
    by blast
  have 1: "ds' = ds @ (?mine @ new)" using r ds1 by simp
  have 2: "\<forall>day \<in> set (?mine @ new). \<exists>c' \<in> set (c # cs). \<exists>p n i d.
             day = assemble_day a2c top_attractions fls hs tg b p c' n i d"
    using d by auto
  have m: "city ` set ?mine = (if 0 < n then {label_city a2c c} else {})"
  proof (cases "0 < n")
    case True
    have sub: "city ` set ?mine \<subseteq> {label_city a2c c}" by auto
    have ne: "city ` set ?mine \<noteq> {}" using True by simp
    from sub ne have "city ` set ?mine = {label_city a2c c}"
      unfolding subset_singleton_iff by blast
    with True show ?thesis by simp
  next
    case False
    then show ?thesis by simp
  qed
  have 3: "\<forall>c' \<in> set (c # cs). \<forall>n'. map_of dpc c' = Some n' \<longrightarrow> 0 < n' \<longrightarrow>
             label_city a2c c' \<in> city ` set (?mine @ new)"
    using l n m by (auto simp: image_Un)
  have 4: "\<forall>x. label_city a2c x \<in> city ` set (?mine @ new) \<longrightarrow>
              (\<exists>c' \<in> set (c # cs). \<exists>n. label_city a2c c' = label_city a2c x \<and>
                 map_of dpc c' = Some n \<and> 0 < n)"
  proof (intro allI impI)
    fix x assume "label_city a2c x \<in> city ` set (?mine @ new)"
    then consider "label_city a2c x \<in> city ` set ?mine" | "label_city a2c x \<in> city ` set new"
      by (auto simp: image_Un)
    then show "\<exists>c' \<in> set (c # cs). \<exists>n. label_city a2c c' = label_city a2c x \<and>
                 map_of dpc c' = Some n \<and> 0 < n"
    proof cases
      case 1
      then have "0 < n" "label_city a2c c = label_city a2c x"
        unfolding m by (auto split: if_splits)
      with n show ?thesis by auto
    next
      case 2
      with k show ?thesis by auto
    qed
  qed
  from 1 2 3 4 show ?case by blast
qed

lemma allocation_positive:
  assumes "0 < n" and "1 \<le> d" and "i < n"
  shows "(0 < d div int n + (if int i < d mod int n then 1 else 0)) = (int i < d)"
proof (cases "d < int n")
  case True
  with assms(2) have "d div int n = 0" "d mod int n = d" by simp_all
  then show ?thesis by simp
next
  case False
  then have "int n \<le> d" by simp
  then have "int n div int n \<le> d div int n"
    using assms(1) by (intro zdiv_mono1) simp_all
  then have "1 \<le> d div int n" using assms(1) by simp
  moreover have "int i < d" using \<open>int n \<le> d\<close> assms(3) by simp
  ultimately show ?thesis by simp
qed

lemma run_Inr_route:
  assumes "ItineraryPlannerAgent_run a2c top_attractions prefs fls hs tg = Inr it"
  shows "\<exists>s. start_date prefs = Some s" and "build_city_route a2c prefs fls \<noteq> []"
proof -
  show "\<exists>s. start_date prefs = Some s"
    using assms by (cases "start_date prefs") (simp_all add: ItineraryPlannerAgent_run_def)
  show "build_city_route a2c prefs fls \<noteq> []"
    using assms
    by (auto simp: ItineraryPlannerAgent_run_def allocate_days_def Let_def split: option.splits)
qed

text \<open>
  A run that returns has a start date and a non-empty route; its days are built by
  \<^const>\<open>assemble_day\<close> under a non-negative envelope, and the cities that have a day are
  the first \<open>max(1, num_days)\<close> cities of the route.
\<close>

lemma run_days:
  assumes "ItineraryPlannerAgent_run a2c top_attractions prefs fls hs tg = Inr it"
  shows "\<exists>b. Itinerary.destinations it = map (label_city a2c) (build_city_route a2c prefs fls) \<and>
           0 \<le> b \<and>
           (\<forall>day \<in> set (days it). \<exists>c p n i d.
              day = assemble_day a2c top_attractions fls hs tg b p c n i d) \<and>
           (\<forall>i < length (build_city_route a2c prefs fls). int i < max 1 (num_days prefs) \<longrightarrow>
              label_city a2c (build_city_route a2c prefs fls ! i) \<in> city ` set (days it)) \<and>
           (\<forall>c. label_city a2c c \<in> city ` set (days it) \<longrightarrow>
              (\<exists>i < length (build_city_route a2c prefs fls). int i < max 1 (num_days prefs) \<and>
                 label_city a2c (build_city_route a2c prefs fls ! i) = label_city a2c c))"
proof -
  let ?cs = "build_city_route a2c prefs fls"
  let ?d = "max 1 (num_days prefs)"
  let ?g = "\<lambda>i. ?d div int (length ?cs) + (if int i < ?d mod int (length ?cs) then 1 else 0)"
  let ?dpc = "zip ?cs (map ?g [0..<length ?cs])"
  let ?b = "estimate_activity_budget a2c prefs fls hs ?dpc"
  from run_Inr_route[OF assms] obtain s where s: "start_date prefs = Some s"
    and ne: "?cs \<noteq> []" by blast
  have dist: "distinct ?cs" by (rule build_city_route_distinct)
  have n: "0 < length ?cs" using ne by simp
  have al: "allocate_days (num_days prefs) ?cs = Inr ?dpc"
    using allocate_days_zip[OF ne dist] .
  have look: "map_of ?dpc (?cs ! i) = Some (?g i)" if "i < length ?cs" for i
    using map_of_zip_nth[of ?cs "map ?g [0..<length ?cs]" i] that dist by simp
  have pos: "(0 < ?g i) = (int i < ?d)" if "i < length ?cs" for i
    using allocation_positive[OF n _ that, of ?d] by simp
  have g0: "0 \<le> ?g i" for i
  proof -
    have "0 \<le> ?d div int (length ?cs)" using n by (simp add: pos_imp_zdiv_nonneg_iff)
    then show ?thesis by simp
  qed
  have b: "0 \<le> ?b"
  proof (rule estimate_activity_budget_nonneg)
    show "\<forall>n \<in> set (map snd ?dpc). 0 \<le> n" using g0 by auto
  qed
  from assms obtain cd' prev' new where
    r: "plan_cities a2c top_attractions fls hs tg ?dpc ?b ?cs (s, origin_city prefs, [])
        = Inr (cd', prev', new)"
    and it: "it = \<lparr>Itinerary.origin = label_city a2c (origin_city prefs),
                   destinations = map (label_city a2c) ?cs, days = new\<rparr>"
    by (auto simp: ItineraryPlannerAgent_run_def s al Let_def split: sum.splits)
  from plan_cities_days[OF r]
  have d: "\<forall>day \<in> set new. \<exists>c \<in> set ?cs. \<exists>p n i d.
              day = assemble_day a2c top_attractions fls hs tg ?b p c n i d"
    and l: "\<forall>c \<in> set ?cs. \<forall>n. map_of ?dpc c = Some n \<longrightarrow> 0 < n \<longrightarrow>
              label_city a2c c \<in> city ` set new"
    and k: "\<forall>c. label_city a2c c \<in> city ` set new \<longrightarrow>
              (\<exists>c' \<in> set ?cs. \<exists>n. label_city a2c c' = label_city a2c c \<and>
                 map_of ?dpc c' = Some n \<and> 0 < n)"
    by auto
  have 2: "\<forall>day \<in> set new. \<exists>c p n i d.
              day = assemble_day a2c top_attractions fls hs tg ?b p c n i d"
    using d by blast
  have 3: "\<forall>i < length ?cs. int i < ?d \<longrightarrow> label_city a2c (?cs ! i) \<in> city ` set new"
  proof (intro allI impI)
    fix i assume i: "i < length ?cs" and "int i < ?d"
    then have "0 < ?g i" using pos by simp
    with l look[OF i] i show "label_city a2c (?cs ! i) \<in> city ` set new" by simp
  qed
  have 4: "\<forall>c. label_city a2c c \<in> city ` set new \<longrightarrow>
              (\<exists>i < length ?cs. int i < ?d \<and> label_city a2c (?cs ! i) = label_city a2c c)"
  proof (intro allI impI)
    fix c assume "label_city a2c c \<in> city ` set new"
    with k obtain c' m where c': "c' \<in> set ?cs" "label_city a2c c' = label_city a2c c"
      "map_of ?dpc c' = Some m" "0 < m" by blast
    from c'(1) obtain i where i: "i < length ?cs" "?cs ! i = c'" by (auto simp: in_set_conv_nth)
    with look[of i] c'(3) have "m = ?g i" by simp
    with c'(4) pos[OF i(1)] have "int i < ?d" by simp
    with i c'(2) show "\<exists>i < length ?cs. int i < ?d \<and> label_city a2c (?cs ! i) = label_city a2c c"
      by blast
  qed
  from 2 3 4 b show ?thesis
    by (intro exI[of _ ?b]) (simp add: it)
qed

subsection \<open>The global reconciliation\<close>

lemma scale_activity_costs_nonneg:
  assumes "0 \<le> scale"
    and "\<forall>day \<in> set (days it). \<forall>a \<in> set (ItineraryDay.activities day). 0 \<le> est_cost a"
    and "day \<in> set (days (scale_activity_costs it scale))"
    and "a \<in> set (ItineraryDay.activities day)"
  shows "0 \<le> est_cost a"
proof -
  from assms(3) obtain day0 where d0: "day0 \<in> set (days it)"
    and d: "day = day0\<lparr>ItineraryDay.activities :=
                     map (\<lambda>activity. activity\<lparr>est_cost := py_round2 (est_cost activity * scale)\<rparr>)
                       (ItineraryDay.activities day0)\<rparr>"
    by (auto simp: scale_activity_costs_def)
  from assms(4) d obtain a0 where a0: "a0 \<in> set (ItineraryDay.activities day0)"
    and a: "a = a0\<lparr>est_cost := py_round2 (est_cost a0 * scale)\<rparr>"
    by auto
  have "0 \<le> est_cost a0 * scale" using assms(1,2) d0 a0 by (intro mult_nonneg_nonneg) auto
  then show ?thesis unfolding a by (simp add: py_round2_nonneg)
qed

text \<open>The itinerary after the reconciliation is the one before, or that one rescaled.\<close>

lemma reconcile_itinerary:
  "fst (reconcile budget flight_cost hotel_cost it) = it \<or>
   (\<exists>scale. 0 \<le> scale \<and> fst (reconcile budget flight_cost hotel_cost it)
                           = scale_activity_costs it scale)"
proof -
  let ?scale = "max 0 (min 1 (max 0 (budget - flight_cost - hotel_cost) / activities_cost_of it))"
  have nonneg: "0 \<le> ?scale" by simp
  show ?thesis
  proof (cases "flight_cost + hotel_cost + activities_cost_of it > budget \<and>
                activities_cost_of it > 0")
    case False
    then have "fst (reconcile budget flight_cost hotel_cost it) = it"
      unfolding reconcile_def Let_def by (simp only: simp_thms if_False fst_conv)
    then show ?thesis ..
  next
    case over: True
    show ?thesis
    proof (cases "?scale < 1")
      case True
      have "fst (reconcile budget flight_cost hotel_cost it) = scale_activity_costs it ?scale"
        unfolding reconcile_def Let_def by (simp only: over True simp_thms if_True fst_conv)
      with nonneg show ?thesis by blast
    next
      case False
      have "fst (reconcile budget flight_cost hotel_cost it) = it"
        unfolding reconcile_def Let_def by (simp only: over False simp_thms if_True if_False fst_conv)
      then show ?thesis ..
    qed
  qed
qed

lemma run_reconciles:
  "\<exists>flight_cost hotel_cost.
     fst (snd (snd (BudgetOptimizerAgent_run a2c strptime prefs fls hs it)))
       = \<lparr>flights = flight_cost, hotels = hotel_cost,
          activities = snd (reconcile (total_budget prefs) flight_cost hotel_cost it)\<rparr> \<and>
     snd (snd (snd (BudgetOptimizerAgent_run a2c strptime prefs fls hs it)))
       = fst (reconcile (total_budget prefs) flight_cost hotel_cost it)"
  unfolding BudgetOptimizerAgent_run_def Let_def
  by (simp add: case_prod_unfold)

lemma run_itinerary_nonneg:
  assumes "\<forall>day \<in> set (days it). \<forall>a \<in> set (ItineraryDay.activities day). 0 \<le> est_cost a"
    and "day \<in> set (days (snd (snd (snd (BudgetOptimizerAgent_run a2c strptime prefs fls hs it)))))"
    and "a \<in> set (ItineraryDay.activities day)"
  shows "0 \<le> est_cost a"
proof -
  from run_reconciles[of a2c strptime prefs fls hs it] obtain fc hc where
    e: "snd (snd (snd (BudgetOptimizerAgent_run a2c strptime prefs fls hs it)))
        = fst (reconcile (total_budget prefs) fc hc it)"
    by blast
  from reconcile_itinerary[of "total_budget prefs" fc hc it] show ?thesis
  proof
    assume "fst (reconcile (total_budget prefs) fc hc it) = it"
    with assms e show ?thesis by simp
  next
    assume "\<exists>scale. 0 \<le> scale \<and>
              fst (reconcile (total_budget prefs) fc hc it) = scale_activity_costs it scale"
    then obtain scale where s: "0 \<le> scale"
      and r: "fst (reconcile (total_budget prefs) fc hc it) = scale_activity_costs it scale"
      by blast
    from assms(2) have "day \<in> set (days (scale_activity_costs it scale))"
      unfolding e r .
    from scale_activity_costs_nonneg[OF s assms(1) this assms(3)] show ?thesis .
  qed
qed

text \<open>
  Claim C9. No estimated cost is ever negative. The entries of the first day in a city
  and the sightseeing activities are created with a cost of at least 0, for any envelope;
  the fit of a day under an envelope of at least 0 keeps costs at least 0; and in the
  pipeline, where the planner's itinerary goes to the budget optimizer with the same
  preferences, flights and hotels, every activity of every day has a cost of at least 0
  after the planner's run and after the optimizer's reconciliation.
\<close>

theorem est_cost_never_negative:
  "(\<forall>a \<in> set (snd (first_day_entries a2c fls hs b prev_city c) @
               activities_for_city a2c top_attractions c b day_offset days_in_city guide).
      0 \<le> est_cost a) \<and>
   (0 \<le> b \<longrightarrow> (\<forall>a \<in> set acts. 0 \<le> est_cost a) \<longrightarrow>
      (\<forall>a \<in> set (fit_to_budget acts b). 0 \<le> est_cost a)) \<and>
   (ItineraryPlannerAgent_run a2c top_attractions prefs fls hs tg = Inr it \<longrightarrow>
      (\<forall>day \<in> set (days it). \<forall>a \<in> set (ItineraryDay.activities day). 0 \<le> est_cost a) \<and>
      (\<forall>day \<in> set (days (snd (snd (snd (BudgetOptimizerAgent_run a2c strptime prefs fls hs it))))).
         \<forall>a \<in> set (ItineraryDay.activities day). 0 \<le> est_cost a))"
proof (intro conjI impI)
  show "\<forall>a \<in> set (snd (first_day_entries a2c fls hs b prev_city c) @
               activities_for_city a2c top_attractions c b day_offset days_in_city guide).
          0 \<le> est_cost a"
    using first_day_entries_free[of _ a2c fls hs b prev_city c]
      activities_for_city_nonneg[of _ a2c top_attractions c b day_offset days_in_city guide]
    by fastforce
next
  assume "0 \<le> b" and "\<forall>a \<in> set acts. 0 \<le> est_cost a"
  then show "\<forall>a \<in> set (fit_to_budget acts b). 0 \<le> est_cost a"
    using fit_to_budget_nonneg by blast
next
  assume r: "ItineraryPlannerAgent_run a2c top_attractions prefs fls hs tg = Inr it"
  from run_days[OF r] obtain e where e: "0 \<le> e"
    and d: "\<forall>day \<in> set (days it). \<exists>c p n i d.
              day = assemble_day a2c top_attractions fls hs tg e p c n i d"
    by auto
  show p: "\<forall>day \<in> set (days it). \<forall>a \<in> set (ItineraryDay.activities day). 0 \<le> est_cost a"
  proof (intro ballI)
    fix day a assume day: "day \<in> set (days it)" and a: "a \<in> set (ItineraryDay.activities day)"
    from d day obtain c p n i dd where
      "day = assemble_day a2c top_attractions fls hs tg e p c n i dd" by blast
    with a assemble_day_nonneg[OF e] show "0 \<le> est_cost a" by blast
  qed
  show "\<forall>day \<in> set (days (snd (snd (snd (BudgetOptimizerAgent_run a2c strptime prefs fls hs it))))).
          \<forall>a \<in> set (ItineraryDay.activities day). 0 \<le> est_cost a"
    using run_itinerary_nonneg[OF p] by blast
qed

theorem est_cost_never_negative_witness:
  "ItineraryPlannerAgent_run Map.empty (\<lambda>c n. [])
     \<lparr>origin_city = ''Baku'', destinations = [''Rome''], num_days = 1, num_locations = 1,
      total_budget = 100, start_date = Some 739626, end_date = Some 739627\<rparr> [] []
     [''Rome'' \<mapsto> \<lparr>tips = [], transit_fare = Some 30,
                     attractions = [[''name'' \<mapsto> ''Colosseum'']]\<rparr>]
   = Inr \<lparr>Itinerary.origin = ''Baku'', destinations = [''Rome''],
          days = [\<lparr>date = 739626, city = ''Rome'',
                   activities =
                     [\<lparr>Activity.name = ''Intercity transport'',
                       description = ''Train/bus transfer to Rome (price varies)'',
                       est_cost = 0, link = None\<rparr>,
                      \<lparr>Activity.name = ''Getting around'',
                       description = ''Metro/tram/bus (typical single ride)'',
                       est_cost = 2679 / 100, link = None\<rparr>,
                      \<lparr>Activity.name = ''Morning: Colosseum'', description = [],
                       est_cost = 2857 / 100, link = None\<rparr>,
                      \<lparr>Activity.name = ''Afternoon: Colosseum'', description = [],
                       est_cost = 25, link = None\<rparr>,
                      \<lparr>Activity.name = ''Evening: Colosseum'', description = [],
                       est_cost = 491 / 25, link = None\<rparr>],
                   transport = Some ''Travel to Rome (train/bus recommended)''\<rparr>]\<rparr> \<and>
   snd (snd (snd (BudgetOptimizerAgent_run Map.empty (\<lambda>v f. None)
     \<lparr>origin_city = ''Baku'', destinations = [''Rome''], num_days = 1, num_locations = 1,
      total_budget = 100, start_date = Some 739626, end_date = Some 739627\<rparr> [] []
     \<lparr>Itinerary.origin = ''Baku'', destinations = [''Rome''],
          days = [\<lparr>date = 739626, city = ''Rome'',
                   activities =
                     [\<lparr>Activity.name = ''Intercity transport'',
                       description = ''Train/bus transfer to Rome (price varies)'',
                       est_cost = 0, link = None\<rparr>,
                      \<lparr>Activity.name = ''Getting around'',
                       description = ''Metro/tram/bus (typical single ride)'',
                       est_cost = 2679 / 100, link = None\<rparr>,
                      \<lparr>Activity.name = ''Morning: Colosseum'', description = [],
                       est_cost = 2857 / 100, link = None\<rparr>,
                      \<lparr>Activity.name = ''Afternoon: Colosseum'', description = [],
                       est_cost = 25, link = None\<rparr>,
                      \<lparr>Activity.name = ''Evening: Colosseum'', description = [],
                       est_cost = 491 / 25, link = None\<rparr>],
                   transport = Some ''Travel to Rome (train/bus recommended)''\<rparr>]\<rparr>)))
   = \<lparr>Itinerary.origin = ''Baku'', destinations = [''Rome''],
          days = [\<lparr>date = 739626, city = ''Rome'',
                   activities =
                     [\<lparr>Activity.name = ''Intercity transport'',
                       description = ''Train/bus transfer to Rome (price varies)'',
                       est_cost = 0, link = None\<rparr>,
                      \<lparr>Activity.name = ''Getting around'',
                       description = ''Metro/tram/bus (typical single ride)'',
                       est_cost = 2679 / 100, link = None\<rparr>,
                      \<lparr>Activity.name = ''Morning: Colosseum'', description = [],
                       est_cost = 2857 / 100, link = None\<rparr>,
                      \<lparr>Activity.name = ''Afternoon: Colosseum'', description = [],
                       est_cost = 25, link = None\<rparr>,
                      \<lparr>Activity.name = ''Evening: Colosseum'', description = [],
                       est_cost = 491 / 25, link = None\<rparr>],
                   transport = Some ''Travel to Rome (train/bus recommended)''\<rparr>]\<rparr> \<and>
   0 \<le> est_cost (ItineraryDay.activities (days \<lparr>Itinerary.origin = ''Baku'', destinations = [''Rome''],
          days = [\<lparr>date = 739626, city = ''Rome'',
                   activities =
                     [\<lparr>Activity.name = ''Intercity transport'',
                       description = ''Train/bus transfer to Rome (price varies)'',
                       est_cost = 0, link = None\<rparr>,
                      \<lparr>Activity.name = ''Getting around'',
                       description = ''Metro/tram/bus (typical single ride)'',
                       est_cost = 2679 / 100, link = None\<rparr>,
                      \<lparr>Activity.name = ''Morning: Colosseum'', description = [],
                       est_cost = 2857 / 100, link = None\<rparr>,
                      \<lparr>Activity.name = ''Afternoon: Colosseum'', description = [],
                       est_cost = 25, link = None\<rparr>,
                      \<lparr>Activity.name = ''Evening: Colosseum'', description = [],
                       est_cost = 491 / 25, link = None\<rparr>],
                   transport = Some ''Travel to Rome (train/bus recommended)''\<rparr>]\<rparr> ! 0) ! 1)"
proof -
  let ?prefs = "\<lparr>origin_city = ''Baku'', destinations = [''Rome''], num_days = 1, num_locations = 1,
      total_budget = 100, start_date = Some 739626, end_date = Some 739627\<rparr>"
  let ?it = "\<lparr>Itinerary.origin = ''Baku'', destinations = [''Rome''],
          days = [\<lparr>date = 739626, city = ''Rome'',
                   activities =
                     [\<lparr>Activity.name = ''Intercity transport'',
                       description = ''Train/bus transfer to Rome (price varies)'',
                       est_cost = 0, link = None\<rparr>,
                      \<lparr>Activity.name = ''Getting around'',
                       description = ''Metro/tram/bus (typical single ride)'',
                       est_cost = 2679 / 100, link = None\<rparr>,
                      \<lparr>Activity.name = ''Morning: Colosseum'', description = [],
                       est_cost = 2857 / 100, link = None\<rparr>,
                      \<lparr>Activity.name = ''Afternoon: Colosseum'', description = [],
                       est_cost = 25, link = None\<rparr>,
                      \<lparr>Activity.name = ''Evening: Colosseum'', description = [],
                       est_cost = 491 / 25, link = None\<rparr>],
                   transport = Some ''Travel to Rome (train/bus recommended)''\<rparr>]\<rparr>"
  have r32: "py_round2 32 = 32" and r28: "py_round2 28 = 28" and r22: "py_round2 22 = 22"
    and r30: "py_round2 30 = 30"
    and s30: "py_round2 (375 / 14) = 2679 / 100" and s32: "py_round2 (200 / 7) = 2857 / 100"
    and s28: "py_round2 25 = 25" and s22: "py_round2 (275 / 14) = 491 / 25"
    by (simp_all add: py_round2_def round_half_even_def)
  have route: "build_city_route Map.empty ?prefs [] = [''Rome'']"
    by (simp add: build_city_route_def collect_city_def label_city_def)
  have run: "ItineraryPlannerAgent_run Map.empty (\<lambda>c n. []) ?prefs [] []
     [''Rome'' \<mapsto> \<lparr>tips = [], transit_fare = Some 30,
                     attractions = [[''name'' \<mapsto> ''Colosseum'']]\<rparr>]
   = Inr ?it"
    unfolding ItineraryPlannerAgent_run_def route
    by (simp add: allocate_days_def estimate_activity_budget_def cheapest_hotel_price_def
          plan_city_def plan_day_def date_max_def assemble_day_def first_day_entries_def find_leg_def
          choose_hotel_name_def intercity_transport_cost_def activities_for_city_def
          attraction_pool_def local_transport_cost_def slots_def slot_activity_def
          py_str_def or_empty_def or_None_def fit_to_budget_def label_city_def Let_def
          r32 r28 r22 r30 s30 s32 s28 s22)
  have opt: "snd (snd (snd (BudgetOptimizerAgent_run Map.empty (\<lambda>v f. None) ?prefs [] [] ?it)))
             = ?it"
    by (simp add: BudgetOptimizerAgent_run_def nights_per_city_def choose_flights_def
          choose_hotel_def label_city_def reconcile_def activities_cost_of_def Let_def)
  from est_cost_never_negative[of Map.empty "[]" "[]" 0 "''Baku''" "''Rome''" "\<lambda>c n. []" 0 1 None
      "[]" _ _ _ "\<lambda>v f. None", THEN conjunct2, THEN conjunct2, THEN mp, OF run]
  have "\<forall>day \<in> set (days ?it). \<forall>a \<in> set (ItineraryDay.activities day). 0 \<le> est_cost a"
    unfolding opt by blast
  then have "0 \<le> est_cost (ItineraryDay.activities (days ?it ! 0) ! 1)"
    by simp
  with run opt show ?thesis by (intro conjI)
qed

subsection \<open>The cities that have a day\<close>

text \<open>
  Claim C5, as the code has it. When the run returns an itinerary, the cities of the route
  at the positions below \<open>max(1, num_days)\<close> each are the city of at least one day: every
  destination of the route when the trip has at least as many days as the route has cities.
\<close>

theorem route_cities_have_days:
  assumes "ItineraryPlannerAgent_run a2c top_attractions prefs fls hs tg = Inr it"
  shows "Itinerary.destinations it = map (label_city a2c) (build_city_route a2c prefs fls) \<and>
         (\<forall>i < length (Itinerary.destinations it). int i < max 1 (num_days prefs) \<longrightarrow>
            Itinerary.destinations it ! i \<in> city ` set (days it)) \<and>
         (int (length (Itinerary.destinations it)) \<le> num_days prefs \<longrightarrow>
            set (Itinerary.destinations it) \<subseteq> city ` set (days it))"
proof -
  from run_days[OF assms] have
    d: "Itinerary.destinations it = map (label_city a2c) (build_city_route a2c prefs fls)"
    and l: "\<forall>i < length (build_city_route a2c prefs fls). int i < max 1 (num_days prefs) \<longrightarrow>
              label_city a2c (build_city_route a2c prefs fls ! i) \<in> city ` set (days it)"
    by blast+
  have 1: "\<forall>i < length (Itinerary.destinations it). int i < max 1 (num_days prefs) \<longrightarrow>
             Itinerary.destinations it ! i \<in> city ` set (days it)"
    using l unfolding d by simp
  have 2: "set (Itinerary.destinations it) \<subseteq> city ` set (days it)"
    if "int (length (Itinerary.destinations it)) \<le> num_days prefs"
  proof
    fix x assume "x \<in> set (Itinerary.destinations it)"
    then obtain i where i: "i < length (Itinerary.destinations it)"
      and x: "Itinerary.destinations it ! i = x"
      by (auto simp: in_set_conv_nth)
    from i that have "int i < max 1 (num_days prefs)" by simp
    with 1 i x show "x \<in> city ` set (days it)" by blast
  qed
  from d 1 2 show ?thesis by blast
qed

theorem route_cities_have_days_witness:
  "ItineraryPlannerAgent_run Map.empty (\<lambda>c n. [])
     \<lparr>origin_city = ''Baku'', destinations = [''Rome'', ''Paris''], num_days = 2,
      num_locations = 2, total_budget = 500, start_date = Some 739626, end_date = Some 739628\<rparr>
     [] [] Map.empty
   = Inr \<lparr>Itinerary.origin = ''Baku'', destinations = [''Rome'', ''Paris''],
          days = [\<lparr>date = 739626, city = ''Rome'',
                   activities = [\<lparr>Activity.name = ''Intercity transport'',
                       description = ''Train/bus transfer to Rome (price varies)'',
                       est_cost = 0, link = None\<rparr>],
                   transport = Some ''Travel to Rome (train/bus recommended)''\<rparr>,
                  \<lparr>date = 739627, city = ''Paris'',
                   activities = [\<lparr>Activity.name = ''Intercity transport'',
                       description = ''Train/bus transfer to Paris (price varies)'',
                       est_cost = 0, link = None\<rparr>],
                   transport = Some ''Travel to Paris (train/bus recommended)''\<rparr>]\<rparr> \<and>
   set [''Rome'', ''Paris''] \<subseteq> city ` set
     [\<lparr>date = 739626, city = ''Rome'',
       activities = [\<lparr>Activity.name = ''Intercity transport'',
           description = ''Train/bus transfer to Rome (price varies)'',
           est_cost = 0, link = None\<rparr>],
       transport = Some ''Travel to Rome (train/bus recommended)''\<rparr>,
      \<lparr>date = 739627, city = ''Paris'',
       activities = [\<lparr>Activity.name = ''Intercity transport'',
           description = ''Train/bus transfer to Paris (price varies)'',
           est_cost = 0, link = None\<rparr>],
       transport = Some ''Travel to Paris (train/bus recommended)''\<rparr>]"
proof -
  let ?prefs = "\<lparr>origin_city = ''Baku'', destinations = [''Rome'', ''Paris''], num_days = 2,
      num_locations = 2, total_budget = 500, start_date = Some 739626, end_date = Some 739628\<rparr>"
  have s: "start_date ?prefs = Some 739626" by simp
  have route: "build_city_route Map.empty ?prefs [] = [''Rome'', ''Paris'']"
    by (simp add: build_city_route_def collect_city_def label_city_def)
  then have ne: "build_city_route Map.empty ?prefs [] \<noteq> []" by simp
  have run: "ItineraryPlannerAgent_run Map.empty (\<lambda>c n. []) ?prefs [] [] Map.empty
   = Inr \<lparr>Itinerary.origin = ''Baku'', destinations = [''Rome'', ''Paris''],
          days = [\<lparr>date = 739626, city = ''Rome'',
                   activities = [\<lparr>Activity.name = ''Intercity transport'',
                       description = ''Train/bus transfer to Rome (price varies)'',
                       est_cost = 0, link = None\<rparr>],
                   transport = Some ''Travel to Rome (train/bus recommended)''\<rparr>,
                  \<lparr>date = 739627, city = ''Paris'',
                   activities = [\<lparr>Activity.name = ''Intercity transport'',
                       description = ''Train/bus transfer to Paris (price varies)'',
                       est_cost = 0, link = None\<rparr>],
                   transport = Some ''Travel to Paris (train/bus recommended)''\<rparr>]\<rparr>"
    unfolding ItineraryPlannerAgent_run_def route
    by (simp add: allocate_days_def estimate_activity_budget_def cheapest_hotel_price_def
          plan_city_def plan_day_def date_max_def assemble_day_def first_day_entries_def find_leg_def
          choose_hotel_name_def intercity_transport_cost_def activities_for_city_def
          attraction_pool_def fit_to_budget_def label_city_def Let_def)
  from route_cities_have_days[OF run, THEN conjunct2, THEN conjunct2] run
  show ?thesis by simp
qed

text \<open>
  Claim C5 as stated, for every valid input: a trip of one day to Rome and Paris gives
  its day to Rome, and Paris, a destination of the itinerary, is the city of no day.
\<close>

theorem second_city_without_day:
  "ItineraryPlannerAgent_run Map.empty (\<lambda>c n. [])
     \<lparr>origin_city = ''Baku'', destinations = [''Rome'', ''Paris''], num_days = 1,
      num_locations = 2, total_budget = 500, start_date = Some 739626, end_date = Some 739627\<rparr>
     [] [] Map.empty
   = Inr \<lparr>Itinerary.origin = ''Baku'', destinations = [''Rome'', ''Paris''],
          days = [\<lparr>date = 739626, city = ''Rome'',
                   activities = [\<lparr>Activity.name = ''Intercity transport'',
                       description = ''Train/bus transfer to Rome (price varies)'',
                       est_cost = 0, link = None\<rparr>],
                   transport = Some ''Travel to Rome (train/bus recommended)''\<rparr>]\<rparr> \<and>
   ''Paris'' \<notin> city ` set [\<lparr>date = 739626, city = ''Rome'',
                   activities = [\<lparr>Activity.name = ''Intercity transport'',
                       description = ''Train/bus transfer to Rome (price varies)'',
                       est_cost = 0, link = None\<rparr>],
                   transport = Some ''Travel to Rome (train/bus recommended)''\<rparr>]"
proof -
  have route: "build_city_route Map.empty
     \<lparr>origin_city = ''Baku'', destinations = [''Rome'', ''Paris''], num_days = 1,
      num_locations = 2, total_budget = 500, start_date = Some 739626, end_date = Some 739627\<rparr> []
     = [''Rome'', ''Paris'']"
    by (simp add: build_city_route_def collect_city_def label_city_def)
  show ?thesis
    unfolding ItineraryPlannerAgent_run_def route
    by (simp add: allocate_days_def estimate_activity_budget_def cheapest_hotel_price_def
          plan_city_def plan_day_def date_max_def assemble_day_def first_day_entries_def find_leg_def
          choose_hotel_name_def intercity_transport_cost_def activities_for_city_def
          attraction_pool_def fit_to_budget_def label_city_def Let_def)
qed

subsection \<open>The total spend after the reconciliation\<close>















subsection \<open>The flights of a multi-destination trip\<close>

lemma fold_legs:
  "(case fold (\<lambda>dest (legs, current). (legs @ [(current, dest)], dest)) dests (acc, c) of
      (legs, current) \<Rightarrow> legs @ [(current, orig)])
   = acc @ zip (c # dests) (dests @ [orig])"
  by (induction dests arbitrary: acc c) simp_all

lemma leg_order_zip: "leg_order orig dests = zip (orig # dests) (dests @ [orig])"
  using fold_legs[where dests = dests and acc = "[]" and c = orig and orig = orig]
  by (simp add: leg_order_def)

text \<open>
  Over a list in the order of the key, the pass that fills \<^verbatim>\<open>flights_by_leg\<close> keeps, for
  every leg, the first flight of that leg: a later flight is never strictly smaller.
\<close>

lemma fold_by_leg:
  assumes "sorted (map (flight_sort_key strptime) fs)"
    and "\<forall>leg e. m leg = Some e \<longrightarrow>
           (\<forall>f \<in> set fs. flight_sort_key strptime e \<le> flight_sort_key strptime f)"
  shows "fold (\<lambda>f m.
             (case m (leg_key a2c f) of
                None \<Rightarrow> m(leg_key a2c f \<mapsto> f)
              | Some existing \<Rightarrow>
                  if flight_sort_key strptime f < flight_sort_key strptime existing
                  then m(leg_key a2c f \<mapsto> f) else m)) fs m
         = (\<lambda>leg. case m leg of Some e \<Rightarrow> Some e
                    | None \<Rightarrow> find (\<lambda>f. leg_key a2c f = leg) fs)"
proof -
  let ?step = "\<lambda>f m.
             (case m (leg_key a2c f) of
                None \<Rightarrow> m(leg_key a2c f \<mapsto> f)
              | Some existing \<Rightarrow>
                  if flight_sort_key strptime f < flight_sort_key strptime existing
                  then m(leg_key a2c f \<mapsto> f) else m)"
  have "fold ?step fs m = (\<lambda>leg. case m leg of Some e \<Rightarrow> Some e
                    | None \<Rightarrow> find (\<lambda>f. leg_key a2c f = leg) fs)"
    using assms
  proof (induction fs arbitrary: m)
    case Nil
    show ?case by (auto simp: fun_eq_iff split: option.splits)
  next
    case (Cons f fs)
    have srt: "sorted (map (flight_sort_key strptime) fs)"
      and least: "\<forall>g \<in> set fs. flight_sort_key strptime f \<le> flight_sort_key strptime g"
      using Cons.prems(1) by simp_all
    show ?case
    proof (cases "m (leg_key a2c f)")
      case None
      let ?m = "m(leg_key a2c f \<mapsto> f)"
      have inv: "\<forall>leg e. ?m leg = Some e \<longrightarrow>
                   (\<forall>g \<in> set fs. flight_sort_key strptime e \<le> flight_sort_key strptime g)"
        using Cons.prems(2) least by (auto split: if_splits)
      have "fold ?step (f # fs) m = fold ?step fs ?m" using None by simp
      also have "\<dots> = (\<lambda>leg. case ?m leg of Some e \<Rightarrow> Some e
                    | None \<Rightarrow> find (\<lambda>f. leg_key a2c f = leg) fs)"
        by (rule Cons.IH[OF srt inv])
      also have "\<dots> = (\<lambda>leg. case m leg of Some e \<Rightarrow> Some e
                    | None \<Rightarrow> find (\<lambda>f. leg_key a2c f = leg) (f # fs))"
        using None by (auto simp: fun_eq_iff split: option.splits)
      finally show ?thesis .
    next
      case (Some e)
      with Cons.prems(2)
      have "\<forall>g \<in> set (f # fs). flight_sort_key strptime e \<le> flight_sort_key strptime g"
        by blast
      then have "flight_sort_key strptime e \<le> flight_sort_key strptime f" by simp
      then have keep: "\<not> flight_sort_key strptime f < flight_sort_key strptime e" by simp
      have inv: "\<forall>leg e. m leg = Some e \<longrightarrow>
                   (\<forall>g \<in> set fs. flight_sort_key strptime e \<le> flight_sort_key strptime g)"
        using Cons.prems(2) by auto
      have "fold ?step (f # fs) m = fold ?step fs m" using Some keep by simp
      also have "\<dots> = (\<lambda>leg. case m leg of Some e \<Rightarrow> Some e
                    | None \<Rightarrow> find (\<lambda>f. leg_key a2c f = leg) fs)"
        by (rule Cons.IH[OF srt inv])
      also have "\<dots> = (\<lambda>leg. case m leg of Some e \<Rightarrow> Some e
                    | None \<Rightarrow> find (\<lambda>f. leg_key a2c f = leg) (f # fs))"
        using Some by (auto simp: fun_eq_iff split: option.splits)
      finally show ?thesis .
    qed
  qed
  then show ?thesis .
qed

text \<open>The functions of the agent compute the label, the parsed time and the key.\<close>

lemma label_city_normalized: "label_city a2c v = normalized_label a2c v"
  by (simp add: label_city_def normalized_label_def)

lemma try_formats_first:
  "try_formats strptime v fs =
   (case concat (map (\<lambda>fmt. case strptime v fmt of Some dt \<Rightarrow> [dt] | None \<Rightarrow> []) fs) of
      [] \<Rightarrow> None
    | dt # _ \<Rightarrow> Some (if fst dt = 1900 then (2100, snd dt) else dt))"
  by (induction fs) (auto simp: year_def replace_year_def split: option.splits)

lemma parse_departure_time_parsed:
  "parse_departure_time strptime t = parsed_departure strptime t"
  by (simp add: parse_departure_time_def parsed_departure_def try_formats_first fmts_def)

lemma flight_sort_key_composite: "flight_sort_key strptime = composite_key strptime"
  by (simp add: fun_eq_iff flight_sort_key_def composite_key_def Let_def
        parse_departure_time_parsed datetime_max_def cong: option.case_cong)

lemma leg_key_normalized:
  "leg_key a2c f = (normalized_label a2c (FlightOption.origin f),
                    normalized_label a2c (destination f))"
  by (simp add: leg_key_def label_city_normalized)

lemma flights_by_leg_first:
  "flights_by_leg a2c strptime (sort_key (flight_sort_key strptime) fls)
   = cheapest_for_leg a2c strptime fls"
proof -
  have "sorted (map (flight_sort_key strptime) (sort_key (flight_sort_key strptime) fls))"
    by simp
  from fold_by_leg[OF this, of Map.empty a2c] show ?thesis
    by (simp add: flights_by_leg_def cheapest_for_leg_def fun_eq_iff
          flight_sort_key_composite leg_key_normalized)
qed

lemma fold_chosen:
  "fold (\<lambda>leg chosen. (case g leg of Some f \<Rightarrow> chosen @ [f] | None \<Rightarrow> chosen)) legs acc
   = acc @ concat (map (\<lambda>leg. case g leg of Some f \<Rightarrow> [f] | None \<Rightarrow> []) legs)"
  by (induction legs arbitrary: acc) (auto split: option.splits)

lemma choose_flights_multi:
  assumes "length (TravelPreferences.destinations prefs) > 1"
  shows "choose_flights a2c strptime prefs fls it =
         select_flights_spec a2c strptime (origin_city prefs) (Itinerary.destinations it) fls"
  using assms
  by (simp add: choose_flights_def Let_def flights_by_leg_first fold_chosen leg_order_zip
        select_flights_spec_def label_city_normalized)

lemma find_Some_in: "find P xs = Some x \<Longrightarrow> P x \<and> x \<in> set xs"
  by (induction xs) (auto split: if_splits)

lemma find_sorted_least:
  assumes "sorted (map k xs)" and "find P xs = Some x" and "y \<in> set xs" and "P y"
  shows "k x \<le> k y"
  using assms
proof (induction xs)
  case Nil
  then show ?case by simp
next
  case (Cons z zs)
  show ?case
  proof (cases "P z")
    case True
    with Cons.prems(2) have "x = z" by simp
    with Cons.prems(1,3) show ?thesis by auto
  next
    case False
    with Cons.prems have "find P zs = Some x" "y \<in> set zs" "sorted (map k zs)" by auto
    with Cons.IH Cons.prems(4) show ?thesis by blast
  qed
qed

lemma cheapest_for_leg_Some:
  assumes "cheapest_for_leg a2c strptime fls leg = Some f"
  shows "f \<in> set fls"
    and "(normalized_label a2c (FlightOption.origin f), normalized_label a2c (destination f)) = leg"
    and "\<And>g. g \<in> set fls \<Longrightarrow>
           (normalized_label a2c (FlightOption.origin g), normalized_label a2c (destination g)) = leg
           \<Longrightarrow> composite_key strptime f \<le> composite_key strptime g"
proof -
  let ?s = "sort_key (composite_key strptime) fls"
  let ?P = "\<lambda>f. (normalized_label a2c (FlightOption.origin f),
                   normalized_label a2c (destination f)) = leg"
  from assms have fnd: "find ?P ?s = Some f"
    by (simp add: cheapest_for_leg_def)
  from find_Some_in[OF fnd] have "f \<in> set ?s" and l: "?P f" by simp_all
  then show "f \<in> set fls" and "?P f" by simp_all
  fix g assume "g \<in> set fls" and gl: "?P g"
  then have "g \<in> set ?s" by simp
  from find_sorted_least[OF _ fnd this gl, of "composite_key strptime"]
  show "composite_key strptime f \<le> composite_key strptime g" by simp
qed

lemma cheapest_for_leg_None:
  "(cheapest_for_leg a2c strptime fls leg = None) =
   (\<forall>f \<in> set fls. (normalized_label a2c (FlightOption.origin f),
                    normalized_label a2c (destination f)) \<noteq> leg)"
  by (auto simp: cheapest_for_leg_def find_None_iff)

lemma run_chosen_flights:
  "fst (BudgetOptimizerAgent_run a2c strptime prefs fls hs it)
   = choose_flights a2c strptime prefs fls it"
  unfolding BudgetOptimizerAgent_run_def Let_def by (simp add: case_prod_unfold)

lemma lexicographic_triple:
  "((a :: 'a :: linorder, b :: 'b :: linorder, c :: 'c :: linorder) \<le> (a', b', c')) =
   (a < a' \<or> a = a' \<and> (b < b' \<or> b = b' \<and> c \<le> c'))"
  by auto

text \<open>A text that parses gives a date-time below the largest one, when the library does.\<close>

lemma first_parsed_format:
  "concat (map (\<lambda>fmt. case p fmt of Some dt \<Rightarrow> [dt] | None \<Rightarrow> []) fs) = dt0 # rest
   \<Longrightarrow> \<exists>fmt. p fmt = Some dt0"
  by (induction fs) (auto split: option.splits)

lemma parsed_departure_below_max:
  assumes "\<forall>v fmt dt. strptime v fmt = Some dt \<longrightarrow> dt < (9999, 12, 31, 23, 59, 59, 999999)"
    and "parsed_departure strptime t = Some dt"
  shows "dt < (9999, 12, 31, 23, 59, 59, 999999)"
proof -
  let ?parsed = "concat (map (\<lambda>fmt. case strptime (strip t) fmt of
                                        Some dt \<Rightarrow> [dt] | None \<Rightarrow> [])
                     [''%Y-%m-%d %H:%M'', ''%Y-%m-%dT%H:%M'', ''%H:%M'', ''%I:%M %p''])"
  from assms(2) have c: "(case ?parsed of [] \<Rightarrow> None
         | dt # _ \<Rightarrow> Some (if fst dt = 1900 then (2100, snd dt) else dt)) = Some dt"
    unfolding parsed_departure_def by (simp split: if_splits)
  then obtain dt0 rest where e: "?parsed = dt0 # rest"
    by (cases ?parsed) simp_all
  from c have d: "dt = (if fst dt0 = 1900 then (2100, snd dt0) else dt0)"
    unfolding e by simp
  from first_parsed_format[OF e] obtain fmt where p: "strptime (strip t) fmt = Some dt0"
    by blast
  show ?thesis
  proof (cases "fst dt0 = 1900")
    case True
    then have "dt = (2100, snd dt0)" using d by simp
    then show ?thesis by (simp add: less_prod_def)
  next
    case False
    then have "dt = dt0" using d by simp
    moreover from assms(1) p have "dt0 < (9999, 12, 31, 23, 59, 59, 999999)" by blast
    ultimately show ?thesis by (simp only:)
  qed
qed

text \<open>
  A text that begins and ends with a printable ASCII character has no white space to
  strip: every character of white space begins and ends with a byte up to 32 or from 128.
\<close>

lemma strip_leading_unchanged:
  assumes "\<forall>w \<in> set ws. w \<noteq> [] \<longrightarrow> take (length w) s \<noteq> w"
  shows "strip_leading ws s = s"
proof -
  from assms have "find (\<lambda>w. w \<noteq> [] \<and> take (length w) s = w) ws = None"
    by (auto simp: find_None_iff)
  then show ?thesis by (subst strip_leading.simps) simp
qed

lemma whitespace_bytes:
  "\<forall>w \<in> set whitespace. w \<noteq> [] \<and>
     ((of_char (hd w) :: nat) \<le> 32 \<or> 128 \<le> (of_char (hd w) :: nat)) \<and>
     ((of_char (last w) :: nat) \<le> 32 \<or> 128 \<le> (of_char (last w) :: nat))"
  by (simp add: whitespace_def)

lemma strip_unchanged:
  assumes "s \<noteq> []"
    and "32 < (of_char (hd s) :: nat)" "(of_char (hd s) :: nat) < 128"
    and "32 < (of_char (last s) :: nat)" "(of_char (last s) :: nat) < 128"
  shows "strip s = s"
proof -
  have a: "strip_leading whitespace s = s"
  proof (rule strip_leading_unchanged, intro ballI impI notI)
    fix w assume w: "w \<in> set whitespace" "w \<noteq> []" "take (length w) s = w"
    from w(2) have "hd (take (length w) s) = hd s" by (simp add: hd_take)
    with w(3) have "hd s = hd w" by simp
    with whitespace_bytes w(1) assms(2,3) show False by fastforce
  qed
  have b: "strip_leading (map rev whitespace) (rev s) = rev s"
  proof (rule strip_leading_unchanged, intro ballI impI notI)
    fix w assume w: "w \<in> set (map rev whitespace)" "w \<noteq> []" "take (length w) (rev s) = w"
    from w(1) obtain u where u: "u \<in> set whitespace" "w = rev u" by auto
    from w(2) have "hd (take (length w) (rev s)) = hd (rev s)" by (simp add: hd_take)
    with w(3) have "hd (rev s) = hd w" by simp
    with u(2) w(2) assms(1) have "last s = last u" by (simp add: hd_rev)
    with whitespace_bytes u(1) assms(4,5) show False by fastforce
  qed
  show ?thesis by (simp add: strip_def a b)
qed

lemma strip_plain:
  "strip ''10:15'' = ''10:15''" "strip ''9:30'' = ''9:30''" "strip ''18:00'' = ''18:00''"
  "strip ''morning'' = ''morning''"
  by (rule strip_unchanged; simp)+

lemma airport_to_city_codes:
  "airport_to_city ''GYD'' = Some ''Baku''" "airport_to_city ''FCO'' = Some ''Rome''"
  "airport_to_city ''CDG'' = Some ''Paris''"
  by (simp_all add: airport_to_city_def CITY_TO_AIRPORT_def)

text \<open>
  Claim C3. For a trip with more than one declared destination, the flights that the run
  selects are those of the specification's wording: the legs are
  \<open>origin \<rightarrow> city\<^sub>1 \<rightarrow> \<dots> \<rightarrow> city\<^sub>n \<rightarrow> origin\<close> over the destinations of the itinerary, from the
  normalized label of the origin; the flights are sorted by the composite key (price, then
  parsed departure time, then departure-time text), compared component by component, a
  text that does not parse counting as the largest date-time, hence after every text that
  parses; and for each leg the selected flight is the first of the sorted list whose
  normalized labels of origin and destination are the leg. That flight is a discovered
  flight of least key among those of the leg; a leg that no discovered flight matches
  contributes nothing, so every selected flight is a discovered one.
\<close>

theorem multi_city_flight_selection:
  assumes "length (TravelPreferences.destinations prefs) > 1"
  shows "fst (BudgetOptimizerAgent_run a2c strptime prefs fls hs it)
           = select_flights_spec a2c strptime (origin_city prefs) (Itinerary.destinations it) fls \<and>
         (\<forall>f g. (composite_key strptime f \<le> composite_key strptime g) =
            (let dep = (\<lambda>x. case parsed_departure strptime (departure_time x) of
                               Some dt \<Rightarrow> dt | None \<Rightarrow> (9999, 12, 31, 23, 59, 59, 999999))
             in FlightOption.price f < FlightOption.price g \<or>
                FlightOption.price f = FlightOption.price g \<and>
                (dep f < dep g \<or> dep f = dep g \<and> departure_time f \<le> departure_time g))) \<and>
         ((\<forall>v fmt dt. strptime v fmt = Some dt \<longrightarrow> dt < (9999, 12, 31, 23, 59, 59, 999999)) \<longrightarrow>
          (\<forall>f g. FlightOption.price f = FlightOption.price g \<longrightarrow>
                  parsed_departure strptime (departure_time f) \<noteq> None \<longrightarrow>
                  parsed_departure strptime (departure_time g) = None \<longrightarrow>
                  composite_key strptime f < composite_key strptime g)) \<and>
         (\<forall>leg. case cheapest_for_leg a2c strptime fls leg of
                  None \<Rightarrow> \<forall>f \<in> set fls. (normalized_label a2c (FlightOption.origin f),
                                          normalized_label a2c (destination f)) \<noteq> leg
                | Some f \<Rightarrow> f \<in> set fls \<and>
                    (normalized_label a2c (FlightOption.origin f),
                     normalized_label a2c (destination f)) = leg \<and>
                    (\<forall>g \<in> set fls. (normalized_label a2c (FlightOption.origin g),
                                     normalized_label a2c (destination g)) = leg \<longrightarrow>
                       composite_key strptime f \<le> composite_key strptime g)) \<and>
         set (fst (BudgetOptimizerAgent_run a2c strptime prefs fls hs it)) \<subseteq> set fls"
proof -
  have 1: "fst (BudgetOptimizerAgent_run a2c strptime prefs fls hs it)
           = select_flights_spec a2c strptime (origin_city prefs) (Itinerary.destinations it) fls"
    unfolding run_chosen_flights using assms by (rule choose_flights_multi)
  have 2: "\<forall>f g. (composite_key strptime f \<le> composite_key strptime g) =
            (let dep = (\<lambda>x. case parsed_departure strptime (departure_time x) of
                               Some dt \<Rightarrow> dt | None \<Rightarrow> (9999, 12, 31, 23, 59, 59, 999999))
             in FlightOption.price f < FlightOption.price g \<or>
                FlightOption.price f = FlightOption.price g \<and>
                (dep f < dep g \<or> dep f = dep g \<and> departure_time f \<le> departure_time g))"
    unfolding composite_key_def Let_def by (intro allI lexicographic_triple)
  have 3: "\<forall>f g. FlightOption.price f = FlightOption.price g \<longrightarrow>
                  parsed_departure strptime (departure_time f) \<noteq> None \<longrightarrow>
                  parsed_departure strptime (departure_time g) = None \<longrightarrow>
                  composite_key strptime f < composite_key strptime g"
    if lib: "\<forall>v fmt dt. strptime v fmt = Some dt \<longrightarrow> dt < (9999, 12, 31, 23, 59, 59, 999999)"
  proof (intro allI impI)
    fix f g :: FlightOption
    assume pr: "FlightOption.price f = FlightOption.price g"
      and pf: "parsed_departure strptime (departure_time f) \<noteq> None"
      and pg: "parsed_departure strptime (departure_time g) = None"
    from pf obtain dt where dt: "parsed_departure strptime (departure_time f) = Some dt" by auto
    from parsed_departure_below_max[OF lib dt]
    have "dt < (9999, 12, 31, 23, 59, 59, 999999)" .
    then show "composite_key strptime f < composite_key strptime g"
      unfolding composite_key_def dt pg pr
      by (simp only: option.case less_prod_simp simp_thms order.refl) 
  qed
  have 4: "\<forall>leg. case cheapest_for_leg a2c strptime fls leg of
                  None \<Rightarrow> \<forall>f \<in> set fls. (normalized_label a2c (FlightOption.origin f),
                                          normalized_label a2c (destination f)) \<noteq> leg
                | Some f \<Rightarrow> f \<in> set fls \<and>
                    (normalized_label a2c (FlightOption.origin f),
                     normalized_label a2c (destination f)) = leg \<and>
                    (\<forall>g \<in> set fls. (normalized_label a2c (FlightOption.origin g),
                                     normalized_label a2c (destination g)) = leg \<longrightarrow>
                       composite_key strptime f \<le> composite_key strptime g)"
  proof
    fix leg
    show "case cheapest_for_leg a2c strptime fls leg of
                  None \<Rightarrow> \<forall>f \<in> set fls. (normalized_label a2c (FlightOption.origin f),
                                          normalized_label a2c (destination f)) \<noteq> leg
                | Some f \<Rightarrow> f \<in> set fls \<and>
                    (normalized_label a2c (FlightOption.origin f),
                     normalized_label a2c (destination f)) = leg \<and>
                    (\<forall>g \<in> set fls. (normalized_label a2c (FlightOption.origin g),
                                     normalized_label a2c (destination g)) = leg \<longrightarrow>
                       composite_key strptime f \<le> composite_key strptime g)"
    proof (cases "cheapest_for_leg a2c strptime fls leg")
      case None
      then have "\<forall>f \<in> set fls. (normalized_label a2c (FlightOption.origin f),
                                 normalized_label a2c (destination f)) \<noteq> leg"
        by (simp add: cheapest_for_leg_None)
      then show ?thesis unfolding None by simp
    next
      case (Some f)
      from cheapest_for_leg_Some[OF Some] show ?thesis unfolding Some by simp
    qed
  qed
  have 5: "set (fst (BudgetOptimizerAgent_run a2c strptime prefs fls hs it)) \<subseteq> set fls"
    unfolding 1 select_flights_spec_def
    using cheapest_for_leg_Some(1)[of a2c strptime fls]
    by (auto split: option.splits)
  from 1 2 3 4 5 show ?thesis by blast
qed

text \<open>
  The scenario of the specification, with the table of airport codes: flights from Baku to
  Rome and from Paris to Baku, none from Rome to Paris. Of the three flights to Rome at the
  same price, the one at 9:30 is selected: it is before 10:15 as a time, though after it as
  a text, and the text that does not parse comes last.
\<close>

theorem multi_city_flight_selection_witness:
  "length [''Rome'', ''Paris''] > 1 \<and>
   fst (BudgetOptimizerAgent_run airport_to_city
     (\<lambda>v fmt. if fmt = ''%H:%M''
                then (if v = ''10:15'' then Some (1900, 1, 1, 10, 15, 0, 0)
                      else if v = ''9:30'' then Some (1900, 1, 1, 9, 30, 0, 0)
                      else if v = ''18:00'' then Some (1900, 1, 1, 18, 0, 0, 0)
                      else None)
                else None)
     \<lparr>origin_city = ''Baku'', destinations = [''Rome'', ''Paris''], num_days = 2,
      num_locations = 2, total_budget = 1000, start_date = Some 739626,
      end_date = Some 739628\<rparr>
     [\<lparr>FlightOption.origin = ''GYD'', destination = ''FCO'', depart_date = ''2026-01-10'',
       airline = ''AZAL'', price = 180, departure_time = ''10:15'', arrival_time = ''13:15'',
       booking_link = []\<rparr>,
      \<lparr>FlightOption.origin = ''GYD'', destination = ''FCO'', depart_date = ''2026-01-10'',
       airline = ''ITA'', price = 180, departure_time = ''9:30'', arrival_time = ''12:30'',
       booking_link = []\<rparr>,
      \<lparr>FlightOption.origin = ''GYD'', destination = ''FCO'', depart_date = ''2026-01-10'',
       airline = ''THY'', price = 180, departure_time = ''morning'', arrival_time = ''noon'',
       booking_link = []\<rparr>,
      \<lparr>FlightOption.origin = ''CDG'', destination = ''GYD'', depart_date = ''2026-01-12'',
       airline = ''AZAL'', price = 150, departure_time = ''18:00'', arrival_time = ''23:00'',
       booking_link = []\<rparr>]
     []
     \<lparr>Itinerary.origin = ''Baku'', destinations = [''Rome'', ''Paris''], days = []\<rparr>)
   = [\<lparr>FlightOption.origin = ''GYD'', destination = ''FCO'', depart_date = ''2026-01-10'',
       airline = ''ITA'', price = 180, departure_time = ''9:30'', arrival_time = ''12:30'',
       booking_link = []\<rparr>,
      \<lparr>FlightOption.origin = ''CDG'', destination = ''GYD'', depart_date = ''2026-01-12'',
       airline = ''AZAL'', price = 150, departure_time = ''18:00'', arrival_time = ''23:00'',
       booking_link = []\<rparr>]"
proof -
  let ?prefs = "\<lparr>origin_city = ''Baku'', destinations = [''Rome'', ''Paris''], num_days = 2,
      num_locations = 2, total_budget = 1000, start_date = Some 739626,
      end_date = Some 739628\<rparr>"
  let ?st = "(\<lambda>v fmt. if fmt = ''%H:%M''
                then (if v = ''10:15'' then Some (1900, 1, 1, 10, 15, 0, 0)
                      else if v = ''9:30'' then Some (1900, 1, 1, 9, 30, 0, 0)
                      else if v = ''18:00'' then Some (1900, 1, 1, 18, 0, 0, 0)
                      else None)
                else None)"
  have m: "length (TravelPreferences.destinations ?prefs) > 1" by simp
  have p: "parsed_departure ?st ''10:15'' = Some (2100, 1, 1, 10, 15, 0, 0)"
    "parsed_departure ?st ''9:30'' = Some (2100, 1, 1, 9, 30, 0, 0)"
    "parsed_departure ?st ''18:00'' = Some (2100, 1, 1, 18, 0, 0, 0)"
    "parsed_departure ?st ''morning'' = None"
    by (simp_all add: parsed_departure_def strip_plain)
  have n: "normalized_label airport_to_city ''GYD'' = ''Baku''"
    "normalized_label airport_to_city ''FCO'' = ''Rome''"
    "normalized_label airport_to_city ''CDG'' = ''Paris''"
    "normalized_label airport_to_city ''Baku'' = ''Baku''"
    by (simp_all add: normalized_label_def airport_to_city_codes airport_to_city_Baku)
  from multi_city_flight_selection[OF m, THEN conjunct1, of airport_to_city ?st]
  show ?thesis
    by (simp add: select_flights_spec_def cheapest_for_leg_def composite_key_def p n)
qed

end
